theory Spec2Isabelle
  imports Main
begin

section \<open>Values, errors, configuration\<close>

text \<open>
  The service of \<^verbatim>\<open>src/events.service.ts\<close> is a class with four private fields and
  a logger, whose methods call the broker client library (amqplib). The embedding is a
  state-and-exception model: every method maps the service state to the new state paired
  with either the thrown error (\<open>Inl\<close>) or the returned value (\<open>Inr\<close>). Fields
  assigned before a \<^verbatim>\<open>throw\<close> stay assigned, as they do in the source.
  An \<^verbatim>\<open>await\<close> is sequencing: each method runs to completion before the next
  event, so interleavings of concurrent calls are outside this model.
\<close>

datatype jsval =
    JUndefined
  | JNull
  | JBool bool
  | JNum int
  | JBigInt int
  | JStr string
  | JObj "(string \<times> jsval) list"

text \<open>An options object: its own properties, in insertion order.\<close>

type_synonym obj = "(string \<times> jsval) list"

datatype error =
    Error string
  | TypeError string

datatype level = LOG | WARN | ERROR

type_synonym logline = "level \<times> string \<times> error option"

text \<open>\<^verbatim>\<open>interfaces/rabbitmq.interface.ts\<close>: an optional property is an \<open>option\<close>.\<close>

datatype ExchangeType = direct | topic | fanout | headers

record RabbitMQConfig =
  url :: string
  queue :: "string option"
  exchange :: "string option"
  routingKey :: "string option"
  exchangeType :: "ExchangeType option"
  durable :: "bool option"
  persistent :: "bool option"
  prefetch :: "int option"

record EventsConfig =
  rabbitmq :: "RabbitMQConfig option"

text \<open>An inbound message of the client library (\<^verbatim>\<open>ConsumeMessage\<close>).\<close>

record Message =
  content :: string
  fields_msg :: jsval
  properties :: jsval

text \<open>The object a user handler receives: the decoded content and the message's metadata.\<close>

record messageInfo =
  content_info :: jsval
  fields_info :: jsval
  properties_info :: jsval

section \<open>The broker client\<close>

text \<open>
  The client library is not code of this repository. Every call the service makes on it
  is recorded, in order, in the field \<open>calls\<close> of the state; what the library answers is a
  parameter of the model, a function of the whole history of calls (the last element is
  the call being answered), so the theorems hold for every behaviour of the broker.
  Connections and channels are handles (numbers).
\<close>

type_synonym Connection = nat
type_synonym Channel = nat

datatype call =
    Connect string
  | CreateChannel Connection
  | Prefetch Channel int
  | ConnectionOn Connection string
  | ChannelClose Channel
  | ConnectionClose Connection
  | SendToQueue Channel string string obj
  | Publish Channel string string string obj
  | AssertQueue Channel string obj
  | AssertExchange Channel string jsval obj
  | Consume Channel string obj
  | Ack Channel Message
  | Nack Channel Message bool bool
  | Reject Channel Message bool

record env =
  connect_result :: "call list \<Rightarrow> error + Connection"
  createChannel_result :: "call list \<Rightarrow> error + Channel"
  void_result :: "call list \<Rightarrow> error + unit"
  publish_result :: "call list \<Rightarrow> error + bool"
  consume_result :: "call list \<Rightarrow> error + string"
  JSON_stringify :: "jsval \<Rightarrow> error + string option"
  JSON_parse :: "string \<Rightarrow> error + jsval"

text \<open>
  \<open>void_result\<close> answers the calls that return nothing (prefetch, close, assertQueue,
  assertExchange, ack, nack, reject), \<open>publish_result\<close> the two that return a boolean,
  \<open>consume_result\<close> gives the consumer tag. \<open>JSON_stringify\<close> and \<open>JSON_parse\<close>
  are the JavaScript built-ins: \<open>JSON.stringify\<close> throws, returns \<open>undefined\<close>
  (\<open>None\<close>) or returns a string.
\<close>

section \<open>The service state\<close>

record EventsService =
  connection :: "Connection option"
  channel :: "Channel option"
  config :: EventsConfig
  rabbitMQEnabled :: bool
  calls :: "call list"
  logged :: "logline list"
  invoked :: "messageInfo list"

text \<open>
  \<open>connection\<close>, \<open>channel\<close>, \<open>config\<close> and \<open>rabbitMQEnabled\<close> are the fields of the
  class. The other three record what the service does to the outside: \<open>calls\<close> the
  calls on the client library, \<open>logged\<close> the output of the logger, \<open>invoked\<close> the
  argument of each invocation of a user handler.
\<close>

type_synonym 'a action = "EventsService \<Rightarrow> EventsService \<times> (error + 'a)"

definition ret :: "'a \<Rightarrow> 'a action" where
  "ret v s = (s, Inr v)"

definition throw :: "error \<Rightarrow> 'a action" where
  "throw err s = (s, Inl err)"

text \<open>\<open>seq m f\<close>: run \<open>m\<close>; if it threw, the error goes on; otherwise continue with \<open>f\<close>.\<close>

definition seq :: "'a action \<Rightarrow> ('a \<Rightarrow> 'b action) \<Rightarrow> 'b action" where
  "seq m f s = (case m s of (s', Inl err) \<Rightarrow> (s', Inl err) | (s', Inr v) \<Rightarrow> f v s')"

text \<open>\<open>try_catch m h\<close>: \<^verbatim>\<open>try { m } catch (error) { h error }\<close>.\<close>

definition try_catch :: "'a action \<Rightarrow> (error \<Rightarrow> 'a action) \<Rightarrow> 'a action" where
  "try_catch m h s = (case m s of (s', Inl err) \<Rightarrow> h err s' | (s', Inr v) \<Rightarrow> (s', Inr v))"

definition logger_log :: "string \<Rightarrow> unit action" where
  "logger_log m s = (s\<lparr>logged := logged s @ [(LOG, m, None)]\<rparr>, Inr ())"

definition logger_warn :: "string \<Rightarrow> unit action" where
  "logger_warn m s = (s\<lparr>logged := logged s @ [(WARN, m, None)]\<rparr>, Inr ())"

definition logger_error :: "string \<Rightarrow> error \<Rightarrow> unit action" where
  "logger_error m err s = (s\<lparr>logged := logged s @ [(ERROR, m, Some err)]\<rparr>, Inr ())"

text \<open>One call of the client library: record it, then take the library's answer.\<close>

definition client :: "call \<Rightarrow> (call list \<Rightarrow> error + 'a) \<Rightarrow> 'a action" where
  "client c answer s = (let s' = s\<lparr>calls := calls s @ [c]\<rparr> in (s', answer (calls s')))"

text \<open>\<^verbatim>\<open>connection.on(event, observer)\<close> registers an observer and returns.\<close>

definition connection_on :: "Connection \<Rightarrow> string \<Rightarrow> unit action" where
  "connection_on c ev s = (s\<lparr>calls := calls s @ [ConnectionOn c ev]\<rparr>, Inr ())"

text \<open>\<^verbatim>\<open>this.channel!\<close> followed by a member access: a \<open>TypeError\<close> on \<open>null\<close>.\<close>

definition the_channel :: "Channel action" where
  "the_channel s =
     (case channel s of
        None \<Rightarrow> (s, Inl (TypeError ''Cannot read properties of null''))
      | Some ch \<Rightarrow> (s, Inr ch))"

section \<open>Connection supervision\<close>

definition constructor :: "EventsConfig option \<Rightarrow> EventsService" where
  "constructor cfg =
     (let c = (case cfg of None \<Rightarrow> \<lparr>rabbitmq = None\<rparr> | Some c \<Rightarrow> c)
      in \<lparr>connection = None, channel = None, config = c,
          rabbitMQEnabled = (rabbitmq c \<noteq> None), calls = [], logged = [],
          invoked = []\<rparr>)"

text \<open>The two observers registered on the connection: both only write to the log.\<close>

definition on_connection_error :: "error \<Rightarrow> unit action" where
  "on_connection_error err = logger_error ''RabbitMQ connection error:'' err"

definition on_connection_close :: "unit action" where
  "on_connection_close = logger_warn ''RabbitMQ connection closed''"

text \<open>
  \<^verbatim>\<open>if (this.config.rabbitmq.prefetch)\<close>: an absent property is falsy, and a number
  is truthy unless it is zero.
\<close>

definition connectToRabbitMQ :: "env \<Rightarrow> unit action" where
  "connectToRabbitMQ e s =
     (case rabbitmq (config s) of
        None \<Rightarrow> (s, Inr ())
      | Some rc \<Rightarrow>
          try_catch
            (seq (client (Connect (url rc)) (connect_result e)) (\<lambda>c.
             seq (\<lambda>s. (s\<lparr>connection := Some c\<rparr>, Inr ())) (\<lambda>_.
             seq (client (CreateChannel c) (createChannel_result e)) (\<lambda>ch.
             seq (\<lambda>s. (s\<lparr>channel := Some ch\<rparr>, Inr ())) (\<lambda>_.
             seq (case prefetch rc of
                    None \<Rightarrow> ret ()
                  | Some n \<Rightarrow>
                      if n \<noteq> 0 then client (Prefetch ch n) (void_result e) else ret ()) (\<lambda>_.
             seq (connection_on c ''error'') (\<lambda>_.
             seq (connection_on c ''close'') (\<lambda>_.
             logger_log ''Connected to RabbitMQ successfully''))))))))
            (\<lambda>err. seq (logger_error ''Failed to connect to RabbitMQ:'' err) (\<lambda>_. throw err))
            s)"

definition disconnect :: "env \<Rightarrow> unit action" where
  "disconnect e =
     try_catch
       (seq (\<lambda>s. case channel s of
                    Some ch \<Rightarrow>
                      seq (client (ChannelClose ch) (void_result e))
                          (\<lambda>_ s. (s\<lparr>channel := None\<rparr>, Inr ())) s
                  | None \<Rightarrow> (s, Inr ())) (\<lambda>_.
        seq (\<lambda>s. case connection s of
                    Some c \<Rightarrow>
                      seq (client (ConnectionClose c) (void_result e))
                          (\<lambda>_ s. (s\<lparr>connection := None\<rparr>, Inr ())) s
                  | None \<Rightarrow> (s, Inr ())) (\<lambda>_.
        logger_log ''Disconnected from RabbitMQ'')))
       (\<lambda>err. logger_error ''Error disconnecting from RabbitMQ:'' err)"

definition ensureConnection :: "env \<Rightarrow> unit action" where
  "ensureConnection e s =
     (if \<not> rabbitMQEnabled s then (s, Inl (Error ''RabbitMQ is not configured''))
      else if connection s = None \<or> channel s = None then connectToRabbitMQ e s
      else (s, Inr ()))"

definition onModuleInit :: "env \<Rightarrow> unit action" where
  "onModuleInit e s =
     (if rabbitMQEnabled s \<and> rabbitmq (config s) \<noteq> None then connectToRabbitMQ e s
      else (s, Inr ()))"

definition onModuleDestroy :: "env \<Rightarrow> unit action" where
  "onModuleDestroy e = disconnect e"

section \<open>Option objects\<close>

text \<open>
  An object literal is the list of its property definitions, in order; a later definition
  of a property overrides an earlier one, so reading a property takes its last
  definition. The spread \<^verbatim>\<open>{ k: v, ...options }\<close> appends the properties of
  \<open>options\<close> (none when \<open>options\<close> is \<open>undefined\<close>) to the definitions before it.
\<close>

definition read_prop :: "obj \<Rightarrow> string \<Rightarrow> jsval option" where
  "read_prop ob k = map_of (rev ob) k"

text \<open>\<^verbatim>\<open>options?.k\<close>\<close>

definition get_prop :: "obj option \<Rightarrow> string \<Rightarrow> jsval" where
  "get_prop options k =
     (case options of
        None \<Rightarrow> JUndefined
      | Some ob \<Rightarrow> (case read_prop ob k of None \<Rightarrow> JUndefined | Some v \<Rightarrow> v))"

text \<open>\<^verbatim>\<open>a ?? b\<close>\<close>

definition nullish_or :: "jsval \<Rightarrow> jsval \<Rightarrow> jsval" where
  "nullish_or a b = (if a = JUndefined \<or> a = JNull then b else a)"

definition spread :: "obj \<Rightarrow> obj option \<Rightarrow> obj" where
  "spread literal options = (case options of None \<Rightarrow> literal | Some ob \<Rightarrow> literal @ ob)"

definition publishOptions :: "obj option \<Rightarrow> obj" where
  "publishOptions options =
     spread [(''persistent'', nullish_or (get_prop options ''persistent'') (JBool True))] options"

definition queueOptions :: "obj option \<Rightarrow> obj" where
  "queueOptions options = spread [(''durable'', JBool True)] options"

definition exchangeOptions :: "obj \<Rightarrow> obj" where
  "exchangeOptions options = spread [(''durable'', JBool True)] (Some options)"

definition consumeOptions :: "obj option \<Rightarrow> obj" where
  "consumeOptions options = spread [(''noAck'', JBool False)] options"

section \<open>The operations\<close>

text \<open>\<^verbatim>\<open>Buffer.from(x)\<close>: the bytes of a string; a \<open>TypeError\<close> on \<open>undefined\<close>.\<close>

definition Buffer_from :: "string option \<Rightarrow> string action" where
  "Buffer_from x =
     (case x of
        None \<Rightarrow> throw (TypeError ''The first argument must be of type string or an instance of Buffer, ArrayBuffer, or Array or an Array-like Object. Received undefined'')
      | Some str \<Rightarrow> ret str)"

definition sendToQueue :: "env \<Rightarrow> string \<Rightarrow> jsval \<Rightarrow> obj option \<Rightarrow> bool action" where
  "sendToQueue e queueName message options =
     seq (ensureConnection e) (\<lambda>_.
       try_catch
         (seq (\<lambda>s. (s, JSON_stringify e message)) (\<lambda>js.
          seq (Buffer_from js) (\<lambda>messageBuffer.
          seq the_channel (\<lambda>ch.
          client (SendToQueue ch queueName messageBuffer (publishOptions options))
                 (publish_result e)))))
         (\<lambda>err. seq (logger_error (''Error sending message to queue '' @ queueName @ '':'') err)
                     (\<lambda>_. throw err)))"

definition publishToExchange ::
  "env \<Rightarrow> string \<Rightarrow> string \<Rightarrow> jsval \<Rightarrow> obj option \<Rightarrow> bool action" where
  "publishToExchange e exchangeName routingKey' message options =
     seq (ensureConnection e) (\<lambda>_.
       try_catch
         (seq (\<lambda>s. (s, JSON_stringify e message)) (\<lambda>js.
          seq (Buffer_from js) (\<lambda>messageBuffer.
          seq the_channel (\<lambda>ch.
          client (Publish ch exchangeName routingKey' messageBuffer (publishOptions options))
                 (publish_result e)))))
         (\<lambda>err. seq (logger_error
                        (''Error publishing message to exchange '' @ exchangeName @ '':'') err)
                     (\<lambda>_. throw err)))"

definition emitEvent :: "env \<Rightarrow> string \<Rightarrow> jsval \<Rightarrow> obj option \<Rightarrow> unit action" where
  "emitEvent e eventName data options =
     seq (logger_log (''Event emitted: '' @ eventName)) (\<lambda>_ s.
       if rabbitMQEnabled s
       then try_catch
              (seq (sendToQueue e (''events.'' @ eventName) data options) (\<lambda>_. ret ()))
              (\<lambda>err. logger_error (''Failed to send event '' @ eventName @ '' to RabbitMQ:'') err)
              s
       else (s, Inr ()))"

definition createQueue :: "env \<Rightarrow> string \<Rightarrow> obj option \<Rightarrow> unit action" where
  "createQueue e queueName options =
     seq (ensureConnection e) (\<lambda>_.
     seq the_channel (\<lambda>ch.
     client (AssertQueue ch queueName (queueOptions options)) (void_result e)))"

definition createExchange :: "env \<Rightarrow> string \<Rightarrow> obj \<Rightarrow> unit action" where
  "createExchange e exchangeName options =
     seq (ensureConnection e) (\<lambda>_.
     seq the_channel (\<lambda>ch.
     client (AssertExchange ch exchangeName (get_prop (Some options) ''type'')
               (exchangeOptions options))
            (void_result e)))"

section \<open>Consuming\<close>

text \<open>
  A user handler is code from outside: given the message object it may call \<open>ack\<close> and
  \<open>nack\<close> any number of times, seeing whether each call threw, and then returns
  (nothing, or a promise that settles later) or throws. A handler is a function from
  the message object to such a script; the service interprets the calls of the script
  with its own \<open>ack\<close> and \<open>nack\<close> closures for the message at hand.
\<close>

datatype handler_return =
    Void
  | Promise "error option"

datatype script =
    Return handler_return
  | Throw error
  | CallAck "error option \<Rightarrow> script"
  | CallNack "bool option" "error option \<Rightarrow> script"

type_synonym MessageHandler = "messageInfo \<Rightarrow> script"

text \<open>\<^verbatim>\<open>const ack = () => this.channel!.ack(msg)\<close>\<close>

definition ack :: "env \<Rightarrow> Message \<Rightarrow> unit action" where
  "ack e msg = seq the_channel (\<lambda>ch. client (Ack ch msg) (void_result e))"

text \<open>\<^verbatim>\<open>const nack = (requeue = false) => { ... }\<close>: an omitted argument is \<open>false\<close>.\<close>

definition nack :: "env \<Rightarrow> Message \<Rightarrow> bool option \<Rightarrow> unit action" where
  "nack e msg requeue =
     (if (case requeue of None \<Rightarrow> False | Some b \<Rightarrow> b)
      then seq the_channel (\<lambda>ch. client (Nack ch msg False True) (void_result e))
      else seq the_channel (\<lambda>ch. client (Reject ch msg False) (void_result e)))"

definition thrown :: "error + unit \<Rightarrow> error option" where
  "thrown r = (case r of Inl err \<Rightarrow> Some err | Inr _ \<Rightarrow> None)"

primrec run_script :: "env \<Rightarrow> Message \<Rightarrow> script \<Rightarrow> unit action" where
  "run_script e msg (Return r) = ret ()"
| "run_script e msg (Throw err) = throw err"
| "run_script e msg (CallAck k) =
     (\<lambda>s. case ack e msg s of (s', r) \<Rightarrow> run_script e msg (k (thrown r)) s')"
| "run_script e msg (CallNack requeue k) =
     (\<lambda>s. case nack e msg requeue s of (s', r) \<Rightarrow> run_script e msg (k (thrown r)) s')"

text \<open>\<^verbatim>\<open>handler(messageInfo, ack, nack)\<close>\<close>

definition invoke :: "env \<Rightarrow> MessageHandler \<Rightarrow> Message \<Rightarrow> messageInfo \<Rightarrow> unit action" where
  "invoke e handler msg info s = run_script e msg (handler info) (s\<lparr>invoked := invoked s @ [info]\<rparr>)"

text \<open>The callback that \<open>consume\<close> registers with the client library.\<close>

definition on_message :: "env \<Rightarrow> MessageHandler \<Rightarrow> Message option \<Rightarrow> unit action" where
  "on_message e handler m =
     (case m of
        None \<Rightarrow> ret ()
      | Some msg \<Rightarrow>
          try_catch
            (seq (\<lambda>s. (s, JSON_parse e (content msg))) (\<lambda>content.
             invoke e handler msg
               \<lparr>content_info = content, fields_info = fields_msg msg,
                properties_info = properties msg\<rparr>))
            (\<lambda>err. seq (logger_error ''Error processing message:'' err) (\<lambda>_.
                    seq the_channel (\<lambda>ch. client (Reject ch msg False) (void_result e)))))"

definition consume ::
  "env \<Rightarrow> string \<Rightarrow> MessageHandler \<Rightarrow> obj option \<Rightarrow> string action" where
  "consume e queueName handler options =
     seq (ensureConnection e) (\<lambda>_.
     seq the_channel (\<lambda>ch.
     seq (client (Consume ch queueName (consumeOptions options)) (consume_result e))
         (\<lambda>consumerTag. ret consumerTag)))"

definition isConnected :: "EventsService \<Rightarrow> bool" where
  "isConnected s = (rabbitMQEnabled s \<and> connection s \<noteq> None \<and> channel s \<noteq> None)"

definition isRabbitMQEnabled :: "EventsService \<Rightarrow> bool" where
  "isRabbitMQEnabled s = rabbitMQEnabled s"

section \<open>Reachable states\<close>

text \<open>
  The states of a service constructed with \<open>cfg\<close>: the constructor's state, and every
  state after a public method, a lifecycle hook, an observer firing, a delivery to the
  consume callback, or a later call of the \<open>ack\<close> or \<open>nack\<close> closure of a message.
\<close>

inductive reachable :: "env \<Rightarrow> EventsConfig option \<Rightarrow> EventsService \<Rightarrow> bool"
  for e :: env and cfg :: "EventsConfig option" where
  r_constructor: "reachable e cfg (constructor cfg)"
| r_onModuleInit: "reachable e cfg s \<Longrightarrow> reachable e cfg (fst (onModuleInit e s))"
| r_onModuleDestroy: "reachable e cfg s \<Longrightarrow> reachable e cfg (fst (onModuleDestroy e s))"
| r_emitEvent: "reachable e cfg s \<Longrightarrow> reachable e cfg (fst (emitEvent e n d opts s))"
| r_sendToQueue: "reachable e cfg s \<Longrightarrow> reachable e cfg (fst (sendToQueue e q d opts s))"
| r_publishToExchange:
    "reachable e cfg s \<Longrightarrow> reachable e cfg (fst (publishToExchange e x k d opts s))"
| r_createQueue: "reachable e cfg s \<Longrightarrow> reachable e cfg (fst (createQueue e q opts s))"
| r_createExchange: "reachable e cfg s \<Longrightarrow> reachable e cfg (fst (createExchange e x xopts s))"
| r_consume: "reachable e cfg s \<Longrightarrow> reachable e cfg (fst (consume e q h opts s))"
| r_on_message: "reachable e cfg s \<Longrightarrow> reachable e cfg (fst (on_message e h m s))"
| r_on_error: "reachable e cfg s \<Longrightarrow> reachable e cfg (fst (on_connection_error err s))"
| r_on_close: "reachable e cfg s \<Longrightarrow> reachable e cfg (fst (on_connection_close s))"
| r_ack: "reachable e cfg s \<Longrightarrow> reachable e cfg (fst (ack e msg s))"
| r_nack: "reachable e cfg s \<Longrightarrow> reachable e cfg (fst (nack e msg rq s))"

section \<open>Auxiliary notions\<close>

text \<open>A dial is a call of the client library's \<open>connect\<close>.\<close>

fun is_Connect :: "call \<Rightarrow> bool" where
  "is_Connect (Connect u) = True"
| "is_Connect _ = False"

definition dials :: "call list \<Rightarrow> nat" where
  "dials cs = length (filter is_Connect cs)"

text \<open>An action that leaves \<open>config\<close> and \<open>rabbitMQEnabled\<close> as they are.\<close>

definition keeps_config :: "'a action \<Rightarrow> bool" where
  "keeps_config m =
     (\<forall>s. config (fst (m s)) = config s \<and> rabbitMQEnabled (fst (m s)) = rabbitMQEnabled s)"

text \<open>
  A call that settles the delivery \<open>msg\<close> the way the closures of the consume callback
  do: \<open>ack(msg)\<close>, \<open>nack(msg, false, true)\<close> or \<open>reject(msg, false)\<close>.
\<close>

fun concerns :: "Message \<Rightarrow> call \<Rightarrow> bool" where
  "concerns msg (Ack ch m) = (m = msg)"
| "concerns msg (Nack ch m allUpTo requeue) = (m = msg \<and> \<not> allUpTo \<and> requeue)"
| "concerns msg (Reject ch m requeue) = (m = msg \<and> \<not> requeue)"
| "concerns msg _ = False"

text \<open>A step that leaves the fields as they are and adds only such calls.\<close>

definition closure_step :: "Message \<Rightarrow> EventsService \<Rightarrow> EventsService \<Rightarrow> bool" where
  "closure_step msg s s' =
     (\<exists>cs. s' = s\<lparr>calls := calls s @ cs\<rparr> \<and> list_all (concerns msg) cs)"

text \<open>An action that never clears the channel field.\<close>

definition keeps_channel :: "'a action \<Rightarrow> bool" where
  "keeps_channel m = (\<forall>s. channel s \<noteq> None \<longrightarrow> channel (fst (m s)) \<noteq> None)"

text \<open>
  The states in which a consumer is being served: those that a successful \<open>consume\<close>
  leaves, and what follows them by anything but the teardown hook.
\<close>

inductive live :: "env \<Rightarrow> EventsConfig option \<Rightarrow> EventsService \<Rightarrow> bool"
  for e :: env and cfg :: "EventsConfig option" where
  l_consume:
    "reachable e cfg s \<Longrightarrow> consume e q h opts s = (s1, Inr tag) \<Longrightarrow> live e cfg s1"
| l_onModuleInit: "live e cfg s \<Longrightarrow> live e cfg (fst (onModuleInit e s))"
| l_emitEvent: "live e cfg s \<Longrightarrow> live e cfg (fst (emitEvent e n d opts s))"
| l_sendToQueue: "live e cfg s \<Longrightarrow> live e cfg (fst (sendToQueue e q d opts s))"
| l_publishToExchange:
    "live e cfg s \<Longrightarrow> live e cfg (fst (publishToExchange e x k d opts s))"
| l_createQueue: "live e cfg s \<Longrightarrow> live e cfg (fst (createQueue e q opts s))"
| l_createExchange: "live e cfg s \<Longrightarrow> live e cfg (fst (createExchange e x xopts s))"
| l_consume_again: "live e cfg s \<Longrightarrow> live e cfg (fst (consume e q h opts s))"
| l_on_message: "live e cfg s \<Longrightarrow> live e cfg (fst (on_message e h m s))"
| l_on_error: "live e cfg s \<Longrightarrow> live e cfg (fst (on_connection_error err s))"
| l_on_close: "live e cfg s \<Longrightarrow> live e cfg (fst (on_connection_close s))"
| l_ack: "live e cfg s \<Longrightarrow> live e cfg (fst (ack e msg s))"
| l_nack: "live e cfg s \<Longrightarrow> live e cfg (fst (nack e msg rq s))"

subsection \<open>Sample environments\<close>

text \<open>
  A configuration with a broker profile, and three behaviours of the broker: one where
  every call succeeds, one where dialing is refused, one where closing a channel throws.
  Their \<open>JSON_stringify\<close> and \<open>JSON_parse\<close> are right on the values the examples
  use: the empty object and its text, \<open>undefined\<close>, and a \<open>BigInt\<close>, which
  \<open>JSON.stringify\<close> refuses.
\<close>

definition sample_config :: "EventsConfig option" where
  "sample_config =
     Some \<lparr>rabbitmq = Some \<lparr>url = ''amqp://localhost:5672'', queue = None, exchange = None,
       routingKey = None, exchangeType = None, durable = None, persistent = None,
       prefetch = Some 10\<rparr>\<rparr>"

definition broker_up :: env where
  "broker_up =
     \<lparr>connect_result = (\<lambda>h. Inr 1),
      createChannel_result = (\<lambda>h. Inr 2),
      void_result = (\<lambda>h. Inr ()),
      publish_result = (\<lambda>h. Inr True),
      consume_result = (\<lambda>h. Inr ''ctag''),
      JSON_stringify =
        (\<lambda>v. case v of
               JUndefined \<Rightarrow> Inr None
             | JBigInt n \<Rightarrow> Inl (TypeError ''Do not know how to serialize a BigInt'')
             | _ \<Rightarrow> Inr (Some ''{}'')),
      JSON_parse = (\<lambda>str. if str = ''{}'' then Inr (JObj []) else Inl (Error ''SyntaxError''))\<rparr>"

definition broker_down :: env where
  "broker_down = broker_up\<lparr>connect_result := (\<lambda>h. Inl (Error ''ECONNREFUSED''))\<rparr>"

definition broker_close_fails :: env where
  "broker_close_fails =
     broker_up\<lparr>void_result :=
       (\<lambda>h. case rev h of
               ChannelClose ch # _ \<Rightarrow> Inl (Error ''Channel closed'')
             | _ \<Rightarrow> Inr ())\<rparr>"

text \<open>The sample service after a successful \<open>onModuleInit\<close> against \<open>broker_up\<close>.\<close>

definition sample_connected :: EventsService where
  "sample_connected = fst (onModuleInit broker_up (constructor sample_config))"

text \<open>
  The sample service after \<open>onModuleInit\<close> and then a teardown in which closing the
  channel throws.
\<close>

definition sample_stale :: EventsService where
  "sample_stale =
     fst (disconnect broker_close_fails
            (fst (onModuleInit broker_close_fails (constructor sample_config))))"

text \<open>
  Two inbound messages, one with the text of the empty object and one with a truncated
  text, and three handlers: one that acknowledges and returns, one that throws, and an
  asynchronous one whose promise is rejected later.
\<close>

definition sample_message :: Message where
  "sample_message = \<lparr>content = ''{}'', fields_msg = JObj [], properties = JObj []\<rparr>"

definition malformed_message :: Message where
  "malformed_message = \<lparr>content = ''{'', fields_msg = JObj [], properties = JObj []\<rparr>"

definition acking_handler :: MessageHandler where
  "acking_handler info = CallAck (\<lambda>_. Return Void)"

definition throwing_handler :: MessageHandler where
  "throwing_handler info = Throw (Error ''boom'')"

definition async_failing_handler :: MessageHandler where
  "async_failing_handler info = Return (Promise (Some (Error ''boom'')))"

text \<open>Two more handlers: one that nacks with requeue, one that nacks with no argument.\<close>

definition requeueing_handler :: MessageHandler where
  "requeueing_handler info = CallNack (Some True) (\<lambda>_. Return Void)"

definition dropping_handler :: MessageHandler where
  "dropping_handler info = CallNack None (\<lambda>_. Return Void)"

text \<open>The connected sample service after registering a consumer on the queue \<open>q\<close>.\<close>

definition sample_consuming :: EventsService where
  "sample_consuming = fst (consume broker_up ''q'' acking_handler None sample_connected)"

section \<open>Configuration is fixed at construction\<close>

lemma keeps_ret: "keeps_config (ret v)"
  by (simp add: keeps_config_def ret_def)

lemma keeps_throw: "keeps_config (throw err)"
  by (simp add: keeps_config_def throw_def)

lemma keeps_seq: "keeps_config m \<Longrightarrow> (\<And>v. keeps_config (f v)) \<Longrightarrow> keeps_config (seq m f)"
  unfolding keeps_config_def seq_def
  by (auto split: prod.splits sum.splits) (metis fst_conv)+

lemma keeps_try_catch:
  "keeps_config m \<Longrightarrow> (\<And>err. keeps_config (h err)) \<Longrightarrow> keeps_config (try_catch m h)"
  unfolding keeps_config_def try_catch_def
  by (auto split: prod.splits sum.splits) (metis fst_conv)+

lemma keeps_client: "keeps_config (client c a)"
  by (simp add: keeps_config_def client_def Let_def)

lemma keeps_logger: "keeps_config (logger_log m)" "keeps_config (logger_warn m)"
  "keeps_config (logger_error m err)"
  by (simp_all add: keeps_config_def logger_log_def logger_warn_def logger_error_def)

lemma keeps_connection_on: "keeps_config (connection_on c ev)"
  by (simp add: keeps_config_def connection_on_def)

lemma keeps_the_channel: "keeps_config the_channel"
  by (simp add: keeps_config_def the_channel_def split: option.splits)

lemma keeps_assign:
  "keeps_config (\<lambda>s. (s\<lparr>connection := x\<rparr>, Inr ()))"
  "keeps_config (\<lambda>s. (s\<lparr>channel := y\<rparr>, Inr ()))"
  "keeps_config (\<lambda>s. (s, r))"
  by (simp_all add: keeps_config_def)

lemmas keeps_basic = keeps_ret keeps_throw keeps_client keeps_logger keeps_connection_on
  keeps_the_channel keeps_assign

lemma keeps_case_option:
  "keeps_config a \<Longrightarrow> (\<And>x. keeps_config (b x)) \<Longrightarrow>
   keeps_config (\<lambda>s. case f s of None \<Rightarrow> a s | Some x \<Rightarrow> b x s)"
  by (simp add: keeps_config_def split: option.splits)

lemma keeps_if:
  "keeps_config a \<Longrightarrow> keeps_config b \<Longrightarrow> keeps_config (\<lambda>s. if P s then a s else b s)"
  by (simp add: keeps_config_def)

lemma keeps_if_const:
  "keeps_config a \<Longrightarrow> keeps_config b \<Longrightarrow> keeps_config (if P then a else b)"
  by simp

lemma keeps_case_const:
  "keeps_config a \<Longrightarrow> (\<And>x. keeps_config (b x)) \<Longrightarrow>
   keeps_config (case p of None \<Rightarrow> a | Some x \<Rightarrow> b x)"
  by (cases p) simp_all

lemmas keeps_intros = keeps_seq keeps_try_catch keeps_case_option keeps_case_const keeps_if
  keeps_if_const keeps_basic

lemma keeps_connectToRabbitMQ: "keeps_config (connectToRabbitMQ e)"
proof -
  have "keeps_config (\<lambda>s. connectToRabbitMQ e s)"
    unfolding connectToRabbitMQ_def by (intro keeps_intros)
  then show ?thesis by simp
qed

lemma keeps_disconnect: "keeps_config (disconnect e)"
  unfolding disconnect_def by (intro keeps_intros)

lemma keeps_ensureConnection: "keeps_config (ensureConnection e)"
proof -
  have "keeps_config (\<lambda>s. ensureConnection e s)"
    unfolding ensureConnection_def by (intro keeps_intros keeps_connectToRabbitMQ)
  then show ?thesis by simp
qed

lemma keeps_onModuleInit: "keeps_config (onModuleInit e)"
proof -
  have "keeps_config (\<lambda>s. onModuleInit e s)"
    unfolding onModuleInit_def by (intro keeps_intros keeps_connectToRabbitMQ)
  then show ?thesis by simp
qed

lemma keeps_Buffer_from: "keeps_config (Buffer_from x)"
  by (cases x) (simp_all add: Buffer_from_def keeps_basic)

lemma keeps_sendToQueue: "keeps_config (sendToQueue e q d opts)"
  unfolding sendToQueue_def by (intro keeps_intros keeps_ensureConnection keeps_Buffer_from)

lemma keeps_publishToExchange: "keeps_config (publishToExchange e x k d opts)"
  unfolding publishToExchange_def
  by (intro keeps_intros keeps_ensureConnection keeps_Buffer_from)

lemma keeps_emitEvent: "keeps_config (emitEvent e n d opts)"
  unfolding emitEvent_def by (intro keeps_intros keeps_sendToQueue)

lemma keeps_createQueue: "keeps_config (createQueue e q opts)"
  unfolding createQueue_def by (intro keeps_intros keeps_ensureConnection)

lemma keeps_createExchange: "keeps_config (createExchange e x xopts)"
  unfolding createExchange_def by (intro keeps_intros keeps_ensureConnection)

lemma keeps_consume: "keeps_config (consume e q h opts)"
  unfolding consume_def by (intro keeps_intros keeps_ensureConnection)

lemma keeps_ack: "keeps_config (ack e msg)"
  unfolding ack_def by (intro keeps_intros)

lemma keeps_nack: "keeps_config (nack e msg rq)"
  unfolding nack_def by (intro keeps_intros)

lemma keeps_then:
  assumes "keeps_config m" and "\<And>r. keeps_config (f r)"
  shows "keeps_config (\<lambda>s. case m s of (s', r) \<Rightarrow> f r s')"
  using assms unfolding keeps_config_def
  by (auto split: prod.splits) (metis fst_conv)+

lemma keeps_run_script: "keeps_config (run_script e msg p)"
  by (induction p) (simp_all add: keeps_basic keeps_then keeps_ack keeps_nack)

lemma keeps_invoke: "keeps_config (invoke e h msg info)"
proof -
  have "config (fst (run_script e msg (h info) t)) = config t \<and>
        rabbitMQEnabled (fst (run_script e msg (h info) t)) = rabbitMQEnabled t" for t
    using keeps_run_script [of e msg "h info"] by (simp add: keeps_config_def)
  then show ?thesis by (simp add: keeps_config_def invoke_def)
qed

lemma keeps_on_message: "keeps_config (on_message e h m)"
  unfolding on_message_def
  by (cases m) (simp_all add: keeps_basic, intro keeps_intros keeps_invoke)

lemma keeps_observers: "keeps_config (on_connection_error err)" "keeps_config on_connection_close"
  by (simp_all add: on_connection_error_def on_connection_close_def keeps_basic)

lemma reachable_config:
  "reachable e cfg s \<Longrightarrow>
   config s = config (constructor cfg) \<and> rabbitMQEnabled s = rabbitMQEnabled (constructor cfg)"
proof (induction rule: reachable.induct)
  case r_constructor
  show ?case by simp
qed (simp_all add: keeps_sendToQueue [unfolded keeps_config_def]
       keeps_publishToExchange [unfolded keeps_config_def]
       keeps_emitEvent [unfolded keeps_config_def]
       keeps_createQueue [unfolded keeps_config_def]
       keeps_createExchange [unfolded keeps_config_def]
       keeps_consume [unfolded keeps_config_def]
       keeps_ack [unfolded keeps_config_def]
       keeps_nack [unfolded keeps_config_def]
       keeps_on_message [unfolded keeps_config_def]
       keeps_observers [unfolded keeps_config_def]
       keeps_onModuleInit [unfolded keeps_config_def]
       keeps_disconnect [unfolded keeps_config_def] onModuleDestroy_def)

lemma reachable_enabled:
  "reachable e cfg s \<Longrightarrow> rabbitMQEnabled s = (rabbitmq (config s) \<noteq> None)"
  by (drule reachable_config) (simp add: constructor_def Let_def)


section \<open>Dialing\<close>

lemmas monad_defs = seq_def try_catch_def ret_def throw_def client_def connection_on_def
  logger_log_def logger_warn_def logger_error_def the_channel_def Let_def

lemma connectToRabbitMQ_connect_fails:
  assumes "rabbitmq (config s) = Some rc"
    and "connect_result e (calls s @ [Connect (url rc)]) = Inl err"
  shows "connectToRabbitMQ e s =
           (s\<lparr>calls := calls s @ [Connect (url rc)],
              logged := logged s @ [(ERROR, ''Failed to connect to RabbitMQ:'', Some err)]\<rparr>,
            Inl err)"
  using assms by (simp add: connectToRabbitMQ_def monad_defs)

lemma connectToRabbitMQ_createChannel_fails:
  assumes "rabbitmq (config s) = Some rc"
    and "connect_result e (calls s @ [Connect (url rc)]) = Inr c"
    and "createChannel_result e (calls s @ [Connect (url rc), CreateChannel c]) = Inl err"
  shows "connectToRabbitMQ e s =
           (s\<lparr>connection := Some c,
              calls := calls s @ [Connect (url rc), CreateChannel c],
              logged := logged s @ [(ERROR, ''Failed to connect to RabbitMQ:'', Some err)]\<rparr>,
            Inl err)"
  using assms by (simp add: connectToRabbitMQ_def monad_defs)

lemma connectToRabbitMQ_handles:
  assumes "rabbitmq (config s) = Some rc"
    and "connect_result e (calls s @ [Connect (url rc)]) = Inr c"
    and "createChannel_result e (calls s @ [Connect (url rc), CreateChannel c]) = Inr ch"
  shows "connection (fst (connectToRabbitMQ e s)) = Some c"
    and "channel (fst (connectToRabbitMQ e s)) = Some ch"
  using assms by (simp_all add: connectToRabbitMQ_def monad_defs split: sum.splits option.splits)

lemma connectToRabbitMQ_dials:
  assumes "rabbitmq (config s) = Some rc"
  shows "dials (calls (fst (connectToRabbitMQ e s))) = Suc (dials (calls s))"
    and "take (Suc (length (calls s))) (calls (fst (connectToRabbitMQ e s))) = calls s @ [Connect (url rc)]"
  using assms by (simp_all add: connectToRabbitMQ_def monad_defs dials_def split: sum.splits option.splits)

lemma connectToRabbitMQ_ok_channel:
  assumes "rabbitmq (config s) = Some rc"
    and "connectToRabbitMQ e s = (s', Inr u)"
  shows "channel s' \<noteq> None \<and> connection s' \<noteq> None"
  using assms by (auto simp add: connectToRabbitMQ_def monad_defs split: sum.splits option.splits if_splits)

lemma reachable_profile:
  "reachable e cfg s \<Longrightarrow> rabbitMQEnabled s \<Longrightarrow> \<exists>rc. rabbitmq (config s) = Some rc"
  by (drule reachable_enabled) auto

section \<open>Status queries\<close>

text \<open>
  Claim C7. In every reachable state of a service constructed with \<open>cfg\<close>,
  \<open>isRabbitMQEnabled\<close> is true exactly when \<open>cfg\<close> carried a broker profile, whatever
  the cached connection and channel are; \<open>isConnected\<close> is true exactly when the service
  is enabled and both the cached connection and the cached channel are present (it is a
  function of the state alone, so it makes no call on the broker); hence a service that
  is not enabled is never connected.
\<close>

theorem status_queries_reachable:
  assumes "reachable e cfg s"
  shows "isRabbitMQEnabled s = (case cfg of None \<Rightarrow> False | Some c \<Rightarrow> rabbitmq c \<noteq> None)
       \<and> isRabbitMQEnabled (s\<lparr>connection := c, channel := ch\<rparr>) = isRabbitMQEnabled s
       \<and> isConnected s = (isRabbitMQEnabled s \<and> connection s \<noteq> None \<and> channel s \<noteq> None)
       \<and> (\<not> isRabbitMQEnabled s \<longrightarrow> \<not> isConnected s)"
  using reachable_config [OF assms]
  by (simp add: isRabbitMQEnabled_def isConnected_def constructor_def Let_def split: option.splits)

text \<open>The sample service after a successful \<open>onModuleInit\<close>.\<close>

lemma connected_state:
  "onModuleInit broker_up (constructor sample_config) = (s, r) \<Longrightarrow>
   connection s = Some 1 \<and> channel s = Some 2 \<and> rabbitMQEnabled s \<and> r = Inr ()
   \<and> calls s = [Connect ''amqp://localhost:5672'', CreateChannel 1, Prefetch 2 10,
        ConnectionOn 1 ''error'', ConnectionOn 1 ''close'']"
  by (auto simp add: onModuleInit_def constructor_def sample_config_def broker_up_def
      connectToRabbitMQ_def monad_defs)

theorem status_queries_reachable_witness:
  "reachable broker_up sample_config (fst (onModuleInit broker_up (constructor sample_config)))
   \<and> isRabbitMQEnabled (fst (onModuleInit broker_up (constructor sample_config)))
   \<and> isConnected (fst (onModuleInit broker_up (constructor sample_config)))
   \<and> reachable broker_down None (constructor None)
   \<and> \<not> isRabbitMQEnabled (constructor None)
   \<and> \<not> isConnected (constructor None)"
proof -
  have r1: "reachable broker_up sample_config (fst (onModuleInit broker_up (constructor sample_config)))"
    by (rule r_onModuleInit [OF r_constructor])
  have r2: "reachable broker_down None (constructor None)"
    by (rule r_constructor)
  have c: "connection (fst (onModuleInit broker_up (constructor sample_config))) = Some 1"
    "channel (fst (onModuleInit broker_up (constructor sample_config))) = Some 2"
    using connected_state [OF surjective_pairing] by simp_all
  show ?thesis
    using r1 r2 c status_queries_reachable [OF r1, of None None] status_queries_reachable [OF r2, of None None]
    by (simp add: sample_config_def)
qed

section \<open>Ensuring a connection\<close>

text \<open>
  Claim C3. For every call of \<open>ensureConnection\<close> in a reachable state: a service
  without a broker profile fails with the not-configured error and the state, so also the
  list of broker calls, is unchanged; with both a connection and a channel cached it
  returns at once, the state unchanged; otherwise the first broker call is one
  \<open>connect\<close> to the configured URL, exactly one dial is made in all, and when that
  dial (or the opening of the channel) fails the error is the result of
  \<open>ensureConnection\<close>, with no further call on the broker.
\<close>

theorem ensureConnection_behaviour:
  assumes "reachable e cfg s"
  shows "(\<not> rabbitMQEnabled s \<longrightarrow>
            ensureConnection e s = (s, Inl (Error ''RabbitMQ is not configured'')))
       \<and> (rabbitMQEnabled s \<and> connection s \<noteq> None \<and> channel s \<noteq> None \<longrightarrow>
            ensureConnection e s = (s, Inr ()))
       \<and> (rabbitMQEnabled s \<and> (connection s = None \<or> channel s = None) \<longrightarrow>
            (\<exists>rc. rabbitmq (config s) = Some rc
               \<and> take (Suc (length (calls s))) (calls (fst (ensureConnection e s)))
                   = calls s @ [Connect (url rc)]
               \<and> dials (calls (fst (ensureConnection e s))) = Suc (dials (calls s))
               \<and> (\<forall>err. connect_result e (calls s @ [Connect (url rc)]) = Inl err \<longrightarrow>
                     snd (ensureConnection e s) = Inl err
                   \<and> calls (fst (ensureConnection e s)) = calls s @ [Connect (url rc)])
               \<and> (\<forall>c err. connect_result e (calls s @ [Connect (url rc)]) = Inr c
                     \<and> createChannel_result e (calls s @ [Connect (url rc), CreateChannel c])
                         = Inl err \<longrightarrow>
                     snd (ensureConnection e s) = Inl err
                   \<and> calls (fst (ensureConnection e s))
                       = calls s @ [Connect (url rc), CreateChannel c])))"
proof (intro conjI impI)
  assume "\<not> rabbitMQEnabled s"
  then show "ensureConnection e s = (s, Inl (Error ''RabbitMQ is not configured''))"
    by (simp add: ensureConnection_def)
next
  assume "rabbitMQEnabled s \<and> connection s \<noteq> None \<and> channel s \<noteq> None"
  then show "ensureConnection e s = (s, Inr ())"
    by (auto simp add: ensureConnection_def)
next
  assume a: "rabbitMQEnabled s \<and> (connection s = None \<or> channel s = None)"
  then obtain rc where rc: "rabbitmq (config s) = Some rc"
    using reachable_profile [OF assms] by blast
  from a have eq: "ensureConnection e s = connectToRabbitMQ e s"
    by (auto simp add: ensureConnection_def)
  show "\<exists>rc. rabbitmq (config s) = Some rc
               \<and> take (Suc (length (calls s))) (calls (fst (ensureConnection e s)))
                   = calls s @ [Connect (url rc)]
               \<and> dials (calls (fst (ensureConnection e s))) = Suc (dials (calls s))
               \<and> (\<forall>err. connect_result e (calls s @ [Connect (url rc)]) = Inl err \<longrightarrow>
                     snd (ensureConnection e s) = Inl err
                   \<and> calls (fst (ensureConnection e s)) = calls s @ [Connect (url rc)])
               \<and> (\<forall>c err. connect_result e (calls s @ [Connect (url rc)]) = Inr c
                     \<and> createChannel_result e (calls s @ [Connect (url rc), CreateChannel c])
                         = Inl err \<longrightarrow>
                     snd (ensureConnection e s) = Inl err
                   \<and> calls (fst (ensureConnection e s))
                       = calls s @ [Connect (url rc), CreateChannel c])"
    unfolding eq
    using rc connectToRabbitMQ_dials [OF rc, of e]
    by (auto simp add: connectToRabbitMQ_connect_fails [OF rc]
        connectToRabbitMQ_createChannel_fails [OF rc])
qed

theorem ensureConnection_behaviour_witness:
  "reachable broker_down None (constructor None)
   \<and> ensureConnection broker_down (constructor None)
       = (constructor None, Inl (Error ''RabbitMQ is not configured''))
   \<and> reachable broker_up sample_config (fst (onModuleInit broker_up (constructor sample_config)))
   \<and> ensureConnection broker_up (fst (onModuleInit broker_up (constructor sample_config)))
       = (fst (onModuleInit broker_up (constructor sample_config)), Inr ())
   \<and> reachable broker_down sample_config (constructor sample_config)
   \<and> snd (ensureConnection broker_down (constructor sample_config)) = Inl (Error ''ECONNREFUSED'')
   \<and> calls (fst (ensureConnection broker_down (constructor sample_config)))
       = [Connect ''amqp://localhost:5672'']"
proof -
  have r1: "reachable broker_down None (constructor None)"
    by (rule r_constructor)
  have r2: "reachable broker_up sample_config (fst (onModuleInit broker_up (constructor sample_config)))"
    by (rule r_onModuleInit [OF r_constructor])
  have r3: "reachable broker_down sample_config (constructor sample_config)"
    by (rule r_constructor)
  have c: "connection (fst (onModuleInit broker_up (constructor sample_config))) = Some 1"
    "channel (fst (onModuleInit broker_up (constructor sample_config))) = Some 2"
    "rabbitMQEnabled (fst (onModuleInit broker_up (constructor sample_config)))"
    using connected_state [OF surjective_pairing] by simp_all
  have d: "rabbitMQEnabled (constructor sample_config)" "connection (constructor sample_config) = None"
    "calls (constructor sample_config) = []"
    "rabbitmq (config (constructor sample_config)) = Some \<lparr>url = ''amqp://localhost:5672'', queue = None, exchange = None,
       routingKey = None, exchangeType = None, durable = None, persistent = None,
       prefetch = Some 10\<rparr>"
    "\<not> rabbitMQEnabled (constructor None)"
    by (simp_all add: constructor_def sample_config_def)
  have f: "connect_result broker_down h = Inl (Error ''ECONNREFUSED'')" for h
    by (simp add: broker_down_def)
  show ?thesis
    using r1 r2 r3 ensureConnection_behaviour [OF r1] ensureConnection_behaviour [OF r2]
      ensureConnection_behaviour [OF r3]
    by (simp add: c d f)
qed

lemma ensureConnection_ok_channel:
  assumes "reachable e cfg s" and "ensureConnection e s = (s1, Inr u)"
  shows "\<exists>ch. channel s1 = Some ch"
proof (cases "connection s = None \<or> channel s = None")
  case True
  from assms(2) have en: "rabbitMQEnabled s"
    by (auto simp add: ensureConnection_def split: if_splits)
  then obtain rc where rc: "rabbitmq (config s) = Some rc"
    using reachable_profile [OF assms(1)] by blast
  from True en assms(2) have "connectToRabbitMQ e s = (s1, Inr u)"
    by (auto simp add: ensureConnection_def)
  from connectToRabbitMQ_ok_channel [OF rc this] show ?thesis by auto
next
  case False
  with assms(2) show ?thesis
    by (auto simp add: ensureConnection_def split: if_splits)
qed

text \<open>
  Claim C9. Whenever \<open>ensureConnection\<close> returns without throwing in a reachable
  state, the channel field is present in the state it leaves, so reading \<open>this.channel!\<close>
  there yields a channel; consequently the first channel access of \<open>createQueue\<close>,
  \<open>createExchange\<close>, \<open>consume\<close>, \<open>sendToQueue\<close> and \<open>publishToExchange\<close>
  reaches the client library with that channel (for the two publishing methods, once
  the payload has been serialised).
\<close>

theorem ensureConnection_channel_present:
  assumes "reachable e cfg s" and "ensureConnection e s = (s1, Inr ())"
  shows "\<exists>ch. channel s1 = Some ch
       \<and> the_channel s1 = (s1, Inr ch)
       \<and> calls (fst (createQueue e q opts s)) = calls s1 @ [AssertQueue ch q (queueOptions opts)]
       \<and> calls (fst (createExchange e x xopts s))
           = calls s1 @ [AssertExchange ch x (get_prop (Some xopts) ''type'') (exchangeOptions xopts)]
       \<and> calls (fst (consume e q h opts s)) = calls s1 @ [Consume ch q (consumeOptions opts)]
       \<and> (\<forall>js. JSON_stringify e d = Inr (Some js) \<longrightarrow>
             calls (fst (sendToQueue e q d opts s))
               = calls s1 @ [SendToQueue ch q js (publishOptions opts)]
           \<and> calls (fst (publishToExchange e x k d opts s))
               = calls s1 @ [Publish ch x k js (publishOptions opts)])"
proof -
  from ensureConnection_ok_channel [OF assms] obtain ch where ch: "channel s1 = Some ch"
    by blast
  have "the_channel s1 = (s1, Inr ch)"
    using ch by (simp add: the_channel_def)
  moreover have "calls (fst (createQueue e q opts s)) = calls s1 @ [AssertQueue ch q (queueOptions opts)]"
    using ch assms(2) by (simp add: createQueue_def monad_defs split: sum.splits)
  moreover have "calls (fst (createExchange e x xopts s))
           = calls s1 @ [AssertExchange ch x (get_prop (Some xopts) ''type'') (exchangeOptions xopts)]"
    using ch assms(2) by (simp add: createExchange_def monad_defs split: sum.splits)
  moreover have "calls (fst (consume e q h opts s)) = calls s1 @ [Consume ch q (consumeOptions opts)]"
    using ch assms(2) by (simp add: consume_def monad_defs split: sum.splits)
  moreover have "calls (fst (sendToQueue e q d opts s))
               = calls s1 @ [SendToQueue ch q js (publishOptions opts)]"
    if "JSON_stringify e d = Inr (Some js)" for js
    using ch assms(2) that
    by (simp add: sendToQueue_def Buffer_from_def monad_defs split: sum.splits)
  moreover have "calls (fst (publishToExchange e x k d opts s))
               = calls s1 @ [Publish ch x k js (publishOptions opts)]"
    if "JSON_stringify e d = Inr (Some js)" for js
    using ch assms(2) that
    by (simp add: publishToExchange_def Buffer_from_def monad_defs split: sum.splits)
  ultimately show ?thesis using ch by blast
qed

text \<open>The sample service dialing on first use.\<close>

lemma sample_dial:
  "ensureConnection broker_up (constructor sample_config) = (s, r) \<Longrightarrow>
   connection s = Some 1 \<and> channel s = Some 2 \<and> rabbitMQEnabled s \<and> r = Inr ()
   \<and> calls s = [Connect ''amqp://localhost:5672'', CreateChannel 1, Prefetch 2 10,
        ConnectionOn 1 ''error'', ConnectionOn 1 ''close'']"
  by (auto simp add: ensureConnection_def constructor_def sample_config_def broker_up_def
      connectToRabbitMQ_def monad_defs)

theorem ensureConnection_channel_present_witness:
  "reachable broker_up sample_config (constructor sample_config)
   \<and> ensureConnection broker_up (constructor sample_config)
       = (fst (ensureConnection broker_up (constructor sample_config)), Inr ())
   \<and> channel (fst (ensureConnection broker_up (constructor sample_config))) = Some 2
   \<and> calls (fst (createQueue broker_up ''q'' None (constructor sample_config)))
       = [Connect ''amqp://localhost:5672'', CreateChannel 1, Prefetch 2 10,
          ConnectionOn 1 ''error'', ConnectionOn 1 ''close'',
          AssertQueue 2 ''q'' [(''durable'', JBool True)]]"
proof -
  have r: "reachable broker_up sample_config (constructor sample_config)"
    by (rule r_constructor)
  have ok: "ensureConnection broker_up (constructor sample_config)
       = (fst (ensureConnection broker_up (constructor sample_config)), Inr ())"
    using sample_dial [OF surjective_pairing] by (simp add: prod_eq_iff)
  have c: "channel (fst (ensureConnection broker_up (constructor sample_config))) = Some 2"
    "calls (fst (ensureConnection broker_up (constructor sample_config)))
       = [Connect ''amqp://localhost:5672'', CreateChannel 1, Prefetch 2 10,
        ConnectionOn 1 ''error'', ConnectionOn 1 ''close'']"
    using sample_dial [OF surjective_pairing] by simp_all
  show ?thesis
    using r ok ensureConnection_channel_present [OF r ok, of "''q''" None]
    by (auto simp add: c queueOptions_def spread_def)
qed

lemma sample_connected_fields:
  "connection sample_connected = Some 1" "channel sample_connected = Some 2"
  "rabbitMQEnabled sample_connected"
  "calls sample_connected = [Connect ''amqp://localhost:5672'', CreateChannel 1, Prefetch 2 10,
        ConnectionOn 1 ''error'', ConnectionOn 1 ''close'']"
  using connected_state [OF surjective_pairing] by (simp_all add: sample_connected_def)

section \<open>The close observer\<close>

text \<open>
  Claim C1 says that the close observer sets the cached handle to absent, so that the
  next \<open>ensureConnection\<close> dials again. On the connected sample service it does not:
  after the observer has fired both handles are still cached, and the next
  \<open>ensureConnection\<close> makes no dial.
\<close>

theorem close_observer_counterexample:
  "\<not> (connection (fst (on_connection_close sample_connected)) = None
       \<or> channel (fst (on_connection_close sample_connected)) = None)
   \<and> \<not> (dials (calls (fst (ensureConnection broker_up (fst (on_connection_close sample_connected)))))
          = Suc (dials (calls (fst (on_connection_close sample_connected)))))"
  by (simp add: on_connection_close_def logger_warn_def sample_connected_fields
      ensureConnection_def)

text \<open>
  Claim C1, amended. When the close observer fires it only logs a warning: the cached
  connection and channel and the list of broker calls are unchanged, and the next
  \<open>ensureConnection\<close> of a connected service returns at once, on the handles it had,
  without dialing.
\<close>

theorem close_observer_only_logs:
  "on_connection_close s
     = (s\<lparr>logged := logged s @ [(WARN, ''RabbitMQ connection closed'', None)]\<rparr>, Inr ())
   \<and> connection (fst (on_connection_close s)) = connection s
   \<and> channel (fst (on_connection_close s)) = channel s
   \<and> calls (fst (on_connection_close s)) = calls s
   \<and> (isConnected s \<longrightarrow>
        ensureConnection e (fst (on_connection_close s)) = (fst (on_connection_close s), Inr ()))"
  by (auto simp add: on_connection_close_def logger_warn_def ensureConnection_def isConnected_def)

theorem close_observer_only_logs_witness:
  "isConnected sample_connected
   \<and> connection (fst (on_connection_close sample_connected)) = Some 1
   \<and> channel (fst (on_connection_close sample_connected)) = Some 2
   \<and> ensureConnection broker_up (fst (on_connection_close sample_connected))
       = (fst (on_connection_close sample_connected), Inr ())"
proof -
  have c: "isConnected sample_connected"
    by (simp add: isConnected_def sample_connected_fields)
  show ?thesis
    using c close_observer_only_logs [of sample_connected broker_up, THEN conjunct2]
    by (simp add: sample_connected_fields)
qed

section \<open>Teardown\<close>

lemma disconnect_swallows: "snd (disconnect e s) = Inr ()"
  by (simp add: disconnect_def monad_defs split: option.splits sum.splits)

text \<open>
  What \<open>disconnect\<close> does, case by case. It never throws. With no handle cached it
  makes no call on the broker; with only a connection cached it closes the connection;
  with a channel cached it closes the channel first and, only if that close returns,
  the connection (if one is cached) second. A field is cleared only after its close has
  returned, and an error thrown by a close is logged and not propagated.
\<close>

lemma disconnect_teardown:
  "snd (disconnect e s) = Inr ()
   \<and> (channel s = None \<and> connection s = None \<longrightarrow>
        disconnect e s
          = (s\<lparr>logged := logged s @ [(LOG, ''Disconnected from RabbitMQ'', None)]\<rparr>, Inr ()))
   \<and> (\<forall>c. channel s = None \<and> connection s = Some c
          \<and> void_result e (calls s @ [ConnectionClose c]) = Inr () \<longrightarrow>
        disconnect e s
          = (s\<lparr>connection := None, calls := calls s @ [ConnectionClose c],
               logged := logged s @ [(LOG, ''Disconnected from RabbitMQ'', None)]\<rparr>, Inr ()))
   \<and> (\<forall>c err. channel s = None \<and> connection s = Some c
          \<and> void_result e (calls s @ [ConnectionClose c]) = Inl err \<longrightarrow>
        disconnect e s
          = (s\<lparr>calls := calls s @ [ConnectionClose c],
               logged := logged s @ [(ERROR, ''Error disconnecting from RabbitMQ:'', Some err)]\<rparr>,
             Inr ()))
   \<and> (\<forall>ch err. channel s = Some ch
          \<and> void_result e (calls s @ [ChannelClose ch]) = Inl err \<longrightarrow>
        disconnect e s
          = (s\<lparr>calls := calls s @ [ChannelClose ch],
               logged := logged s @ [(ERROR, ''Error disconnecting from RabbitMQ:'', Some err)]\<rparr>,
             Inr ()))
   \<and> (\<forall>ch. channel s = Some ch \<and> connection s = None
          \<and> void_result e (calls s @ [ChannelClose ch]) = Inr () \<longrightarrow>
        disconnect e s
          = (s\<lparr>channel := None, calls := calls s @ [ChannelClose ch],
               logged := logged s @ [(LOG, ''Disconnected from RabbitMQ'', None)]\<rparr>, Inr ()))
   \<and> (\<forall>ch c. channel s = Some ch \<and> connection s = Some c
          \<and> void_result e (calls s @ [ChannelClose ch]) = Inr ()
          \<and> void_result e (calls s @ [ChannelClose ch, ConnectionClose c]) = Inr () \<longrightarrow>
        disconnect e s
          = (s\<lparr>connection := None, channel := None,
               calls := calls s @ [ChannelClose ch, ConnectionClose c],
               logged := logged s @ [(LOG, ''Disconnected from RabbitMQ'', None)]\<rparr>, Inr ()))
   \<and> (\<forall>ch c err. channel s = Some ch \<and> connection s = Some c
          \<and> void_result e (calls s @ [ChannelClose ch]) = Inr ()
          \<and> void_result e (calls s @ [ChannelClose ch, ConnectionClose c]) = Inl err \<longrightarrow>
        disconnect e s
          = (s\<lparr>channel := None,
               calls := calls s @ [ChannelClose ch, ConnectionClose c],
               logged := logged s @ [(ERROR, ''Error disconnecting from RabbitMQ:'', Some err)]\<rparr>,
             Inr ()))"
  by (simp add: disconnect_swallows) (simp add: disconnect_def monad_defs)

lemma disconnect_teardown_sample:
  "disconnect broker_up sample_connected
     = (sample_connected\<lparr>connection := None, channel := None,
          calls := calls sample_connected @ [ChannelClose 2, ConnectionClose 1],
          logged := logged sample_connected @ [(LOG, ''Disconnected from RabbitMQ'', None)]\<rparr>,
        Inr ())
   \<and> disconnect broker_close_fails sample_connected
     = (sample_connected\<lparr>calls := calls sample_connected @ [ChannelClose 2],
          logged := logged sample_connected
            @ [(ERROR, ''Error disconnecting from RabbitMQ:'', Some (Error ''Channel closed''))]\<rparr>,
        Inr ())
   \<and> disconnect broker_up (constructor None)
     = ((constructor None)\<lparr>logged := [(LOG, ''Disconnected from RabbitMQ'', None)]\<rparr>, Inr ())"
proof -
  have v: "void_result broker_up h = Inr ()" for h
    by (simp add: broker_up_def)
  have f: "void_result broker_close_fails h
             = (case rev h of ChannelClose ch # _ \<Rightarrow> Inl (Error ''Channel closed'') | _ \<Rightarrow> Inr ())" for h
    by (simp add: broker_close_fails_def)
  have n: "channel (constructor None) = None" "connection (constructor None) = None"
    "logged (constructor None) = []"
    by (simp_all add: constructor_def)
  show ?thesis
    using disconnect_teardown [of broker_up sample_connected]
      disconnect_teardown [of broker_close_fails sample_connected]
      disconnect_teardown [of broker_up "constructor None"]
    by (simp add: sample_connected_fields v f n)
qed

lemma void_result_close_fails:
  "void_result broker_close_fails h
     = (case rev h of ChannelClose ch # _ \<Rightarrow> Inl (Error ''Channel closed'') | _ \<Rightarrow> Inr ())"
  by (simp add: broker_close_fails_def)

lemma close_fails_connected:
  "onModuleInit broker_close_fails (constructor sample_config) = (sample_connected, Inr ())"
proof -
  have "onModuleInit broker_close_fails (constructor sample_config)
          = onModuleInit broker_up (constructor sample_config)"
    by (simp add: onModuleInit_def constructor_def sample_config_def broker_up_def
        broker_close_fails_def connectToRabbitMQ_def monad_defs)
  then show ?thesis
    using connected_state [OF surjective_pairing]
    by (simp add: sample_connected_def prod_eq_iff)
qed

lemma sample_stale_fields:
  "connection sample_stale = Some 1" "channel sample_stale = Some 2"
  "rabbitMQEnabled sample_stale"
  "calls sample_stale = calls sample_connected @ [ChannelClose 2]"
  by (simp_all add: sample_stale_def close_fails_connected disconnect_def monad_defs
      sample_connected_fields void_result_close_fails)

text \<open>
  Claim C4 says that \<open>disconnect\<close> closes the channel and then the connection, and
  that an error raised during teardown is logged and swallowed. The error is swallowed,
  but the teardown stops at it: both closes sit in one \<open>try\<close> block, so when closing
  the channel throws, the connection is never closed. On the connected sample service
  with a broker whose channel close throws, \<open>disconnect\<close> returns normally after the
  single call \<open>ChannelClose\<close>; no \<open>ConnectionClose\<close> is made and the connection stays
  cached.
\<close>

theorem disconnect_skips_connection_close:
  "connection (fst (onModuleInit broker_close_fails (constructor sample_config))) = Some 1
   \<and> channel (fst (onModuleInit broker_close_fails (constructor sample_config))) = Some 2
   \<and> snd (disconnect broker_close_fails
            (fst (onModuleInit broker_close_fails (constructor sample_config)))) = Inr ()
   \<and> calls (fst (disconnect broker_close_fails
                   (fst (onModuleInit broker_close_fails (constructor sample_config)))))
       = calls (fst (onModuleInit broker_close_fails (constructor sample_config)))
           @ [ChannelClose 2]
   \<and> ConnectionClose 1
       \<notin> set (calls (fst (disconnect broker_close_fails
                            (fst (onModuleInit broker_close_fails (constructor sample_config))))))
   \<and> connection (fst (disconnect broker_close_fails
                        (fst (onModuleInit broker_close_fails (constructor sample_config)))))
       = Some 1
   \<and> logged (fst (disconnect broker_close_fails
                    (fst (onModuleInit broker_close_fails (constructor sample_config)))))
       = logged (fst (onModuleInit broker_close_fails (constructor sample_config)))
           @ [(ERROR, ''Error disconnecting from RabbitMQ:'', Some (Error ''Channel closed''))]"
  by (simp add: close_fails_connected disconnect_def monad_defs sample_connected_fields
      void_result_close_fails)

text \<open>
  Claim C8 says that after \<open>disconnect\<close> has completed, the next
  \<open>ensureConnection\<close> of an enabled service dials again and opens a fresh channel.
  \<open>disconnect\<close> clears the two fields only after the respective close has returned;
  when closing the channel throws, the \<open>catch\<close> block logs and returns, and both
  fields keep their handles. On the sample service with a broker whose channel close
  throws: \<open>disconnect\<close> completes, the channel is still cached, and the next
  \<open>ensureConnection\<close> returns at once on the stale handles without a dial.
\<close>

theorem disconnect_keeps_stale_handle:
  "snd (disconnect broker_close_fails
          (fst (onModuleInit broker_close_fails (constructor sample_config)))) = Inr ()
   \<and> rabbitMQEnabled sample_stale
   \<and> channel sample_stale = Some 2
   \<and> ensureConnection broker_close_fails sample_stale = (sample_stale, Inr ())
   \<and> \<not> (dials (calls (fst (ensureConnection broker_close_fails sample_stale)))
          = Suc (dials (calls sample_stale)))"
  by (simp add: disconnect_swallows sample_stale_fields ensureConnection_def)

lemma disconnect_channel_absent:
  assumes "\<forall>ch. channel s = Some ch \<longrightarrow> void_result e (calls s @ [ChannelClose ch]) = Inr ()"
  shows "channel (fst (disconnect e s)) = None"
  using assms by (simp add: disconnect_def monad_defs split: option.splits sum.splits)

text \<open>
  On the other path the property holds: in a reachable state of an enabled service, when
  closing the cached channel does not throw (or no channel is cached), \<open>disconnect\<close>
  leaves the channel field absent, and the next \<open>ensureConnection\<close> makes exactly one
  dial and caches the connection and the channel that the broker then returns.
\<close>

lemma redial_after_disconnect:
  assumes "reachable e cfg s" and "rabbitMQEnabled s"
    and "\<forall>ch. channel s = Some ch \<longrightarrow> void_result e (calls s @ [ChannelClose ch]) = Inr ()"
  shows "snd (disconnect e s) = Inr ()
       \<and> channel (fst (disconnect e s)) = None
       \<and> dials (calls (fst (ensureConnection e (fst (disconnect e s)))))
           = Suc (dials (calls (fst (disconnect e s))))
       \<and> (\<forall>rc c ch. rabbitmq (config s) = Some rc
             \<and> connect_result e (calls (fst (disconnect e s)) @ [Connect (url rc)]) = Inr c
             \<and> createChannel_result e
                 (calls (fst (disconnect e s)) @ [Connect (url rc), CreateChannel c]) = Inr ch \<longrightarrow>
             connection (fst (ensureConnection e (fst (disconnect e s)))) = Some c
           \<and> channel (fst (ensureConnection e (fst (disconnect e s)))) = Some ch)"
proof -
  let ?s1 = "fst (disconnect e s)"
  have ch: "channel ?s1 = None"
    by (rule disconnect_channel_absent [OF assms(3)])
  have k: "config ?s1 = config s" "rabbitMQEnabled ?s1 = rabbitMQEnabled s"
    using keeps_disconnect [of e] by (simp_all add: keeps_config_def)
  from reachable_profile [OF assms(1,2)] obtain rc where rc: "rabbitmq (config s) = Some rc"
    by blast
  have rc1: "rabbitmq (config ?s1) = Some rc"
    using rc k by simp
  have eq: "ensureConnection e ?s1 = connectToRabbitMQ e ?s1"
    using ch k assms(2) by (simp add: ensureConnection_def)
  show ?thesis
    using ch rc connectToRabbitMQ_dials(1) [OF rc1, of e] connectToRabbitMQ_handles [OF rc1, of e]
    by (simp add: disconnect_swallows eq)
qed

lemma redial_after_disconnect_sample:
  "reachable broker_up sample_config sample_connected
   \<and> rabbitMQEnabled sample_connected
   \<and> void_result broker_up (calls sample_connected @ [ChannelClose 2]) = Inr ()
   \<and> channel (fst (disconnect broker_up sample_connected)) = None
   \<and> dials (calls (fst (ensureConnection broker_up (fst (disconnect broker_up sample_connected)))))
       = Suc (dials (calls (fst (disconnect broker_up sample_connected))))
   \<and> channel (fst (ensureConnection broker_up (fst (disconnect broker_up sample_connected))))
       = Some 2"
proof -
  have r: "reachable broker_up sample_config sample_connected"
    unfolding sample_connected_def by (rule r_onModuleInit [OF r_constructor])
  have en: "rabbitMQEnabled sample_connected"
    by (rule sample_connected_fields)
  have v: "\<forall>ch. channel sample_connected = Some ch \<longrightarrow>
             void_result broker_up (calls sample_connected @ [ChannelClose ch]) = Inr ()"
    by (simp add: broker_up_def)
  have cfg: "rabbitmq (config sample_connected) = Some \<lparr>url = ''amqp://localhost:5672'', queue = None, exchange = None,
       routingKey = None, exchangeType = None, durable = None, persistent = None,
       prefetch = Some 10\<rparr>"
    using reachable_config [OF r] by (simp add: constructor_def sample_config_def)
  have b: "connect_result broker_up h = Inr 1" "createChannel_result broker_up h = Inr 2"
    "void_result broker_up h = Inr ()" for h
    by (simp_all add: broker_up_def)
  show ?thesis
    using r en redial_after_disconnect [OF r en v]
    by (simp add: cfg b sample_connected_fields)
qed

section \<open>Publishing\<close>

lemma read_prop_spread:
  "read_prop (spread [(k, v)] opts) k
     = (case opts of
          None \<Rightarrow> Some v
        | Some ob \<Rightarrow> (case read_prop ob k of None \<Rightarrow> Some v | Some w \<Rightarrow> Some w))"
  by (simp add: read_prop_def spread_def map_add_def split: option.splits)

lemma persistent_default:
  "read_prop (publishOptions opts) ''persistent''
     = (case opts of
          None \<Rightarrow> Some (JBool True)
        | Some ob \<Rightarrow>
            (case read_prop ob ''persistent'' of None \<Rightarrow> Some (JBool True) | Some w \<Rightarrow> Some w))"
  by (simp add: publishOptions_def read_prop_spread get_prop_def nullish_or_def
      split: option.splits)

lemma sendToQueue_not_connected:
  "ensureConnection e s = (s1, Inl err) \<Longrightarrow> sendToQueue e q d opts s = (s1, Inl err)"
  by (simp add: sendToQueue_def seq_def)

lemma publishToExchange_not_connected:
  "ensureConnection e s = (s1, Inl err) \<Longrightarrow> publishToExchange e x k d opts s = (s1, Inl err)"
  by (simp add: publishToExchange_def seq_def)

lemma sendToQueue_sent:
  assumes "ensureConnection e s = (s1, Inr ())" and "channel s1 = Some ch"
    and "JSON_stringify e d = Inr (Some js)"
  shows "sendToQueue e q d opts s
           = (case publish_result e (calls s1 @ [SendToQueue ch q js (publishOptions opts)]) of
                Inr b \<Rightarrow>
                  (s1\<lparr>calls := calls s1 @ [SendToQueue ch q js (publishOptions opts)]\<rparr>, Inr b)
              | Inl err \<Rightarrow>
                  (s1\<lparr>calls := calls s1 @ [SendToQueue ch q js (publishOptions opts)],
                      logged := logged s1
                        @ [(ERROR, ''Error sending message to queue '' @ q @ '':'', Some err)]\<rparr>,
                   Inl err))"
  using assms
  by (simp add: sendToQueue_def Buffer_from_def monad_defs split: sum.splits)

lemma publishToExchange_sent:
  assumes "ensureConnection e s = (s1, Inr ())" and "channel s1 = Some ch"
    and "JSON_stringify e d = Inr (Some js)"
  shows "publishToExchange e x k d opts s
           = (case publish_result e (calls s1 @ [Publish ch x k js (publishOptions opts)]) of
                Inr b \<Rightarrow>
                  (s1\<lparr>calls := calls s1 @ [Publish ch x k js (publishOptions opts)]\<rparr>, Inr b)
              | Inl err \<Rightarrow>
                  (s1\<lparr>calls := calls s1 @ [Publish ch x k js (publishOptions opts)],
                      logged := logged s1
                        @ [(ERROR, ''Error publishing message to exchange '' @ x @ '':'',
                            Some err)]\<rparr>,
                   Inl err))"
  using assms
  by (simp add: publishToExchange_def Buffer_from_def monad_defs split: sum.splits)

lemma sendToQueue_unserialisable:
  assumes "ensureConnection e s = (s1, Inr ())"
  shows "JSON_stringify e d = Inl err \<Longrightarrow>
           sendToQueue e q d opts s
             = (s1\<lparr>logged := logged s1
                   @ [(ERROR, ''Error sending message to queue '' @ q @ '':'', Some err)]\<rparr>,
                Inl err)"
    and "JSON_stringify e d = Inr None \<Longrightarrow>
           snd (sendToQueue e q d opts s)
             = Inl (TypeError ''The first argument must be of type string or an instance of Buffer, ArrayBuffer, or Array or an Array-like Object. Received undefined'')"
  using assms
  by (simp_all add: sendToQueue_def Buffer_from_def monad_defs split: sum.splits)

lemma publishToExchange_unserialisable:
  assumes "ensureConnection e s = (s1, Inr ())"
  shows "JSON_stringify e d = Inl err \<Longrightarrow>
           publishToExchange e x k d opts s
             = (s1\<lparr>logged := logged s1
                   @ [(ERROR, ''Error publishing message to exchange '' @ x @ '':'', Some err)]\<rparr>,
                Inl err)"
    and "JSON_stringify e d = Inr None \<Longrightarrow>
           snd (publishToExchange e x k d opts s)
             = Inl (TypeError ''The first argument must be of type string or an instance of Buffer, ArrayBuffer, or Array or an Array-like Object. Received undefined'')"
  using assms
  by (simp_all add: publishToExchange_def Buffer_from_def monad_defs split: sum.splits)

text \<open>
  What \<open>sendToQueue\<close> and \<open>publishToExchange\<close> do in every reachable state. The
  \<open>persistent\<close> property of the options passed to the client is the last definition
  in the literal: the caller's, whatever its value, when the caller's options define
  the property, and \<open>true\<close> otherwise. A failure of \<open>ensureConnection\<close> is the
  result of the method; so is a failure to serialise the payload; and once the
  connection is ensured and the payload serialised to \<open>js\<close>, the method makes exactly
  one call on the client, with the cached channel, the target, the bytes \<open>js\<close> and
  those options, and its result is the client's answer: the boolean it returns or the
  error it throws.
\<close>

lemma publishing_propagates:
  assumes "reachable e cfg s"
  shows "read_prop (publishOptions opts) ''persistent''
           = (case opts of
                None \<Rightarrow> Some (JBool True)
              | Some ob \<Rightarrow>
                  (case read_prop ob ''persistent'' of
                     None \<Rightarrow> Some (JBool True)
                   | Some w \<Rightarrow> Some w))
       \<and> (\<forall>s1 err. ensureConnection e s = (s1, Inl err) \<longrightarrow>
             sendToQueue e q d opts s = (s1, Inl err)
           \<and> publishToExchange e x k d opts s = (s1, Inl err))
       \<and> (\<forall>s1 err. ensureConnection e s = (s1, Inr ()) \<and> JSON_stringify e d = Inl err \<longrightarrow>
             snd (sendToQueue e q d opts s) = Inl err
           \<and> snd (publishToExchange e x k d opts s) = Inl err)
       \<and> (\<forall>s1. ensureConnection e s = (s1, Inr ()) \<and> JSON_stringify e d = Inr None \<longrightarrow>
             snd (sendToQueue e q d opts s)
               = Inl (TypeError ''The first argument must be of type string or an instance of Buffer, ArrayBuffer, or Array or an Array-like Object. Received undefined'')
           \<and> snd (publishToExchange e x k d opts s)
               = Inl (TypeError ''The first argument must be of type string or an instance of Buffer, ArrayBuffer, or Array or an Array-like Object. Received undefined''))
       \<and> (\<forall>s1 js. ensureConnection e s = (s1, Inr ()) \<and> JSON_stringify e d = Inr (Some js) \<longrightarrow>
             (\<exists>ch. channel s1 = Some ch
                \<and> calls (fst (sendToQueue e q d opts s))
                    = calls s1 @ [SendToQueue ch q js (publishOptions opts)]
                \<and> snd (sendToQueue e q d opts s)
                    = publish_result e (calls s1 @ [SendToQueue ch q js (publishOptions opts)])
                \<and> calls (fst (publishToExchange e x k d opts s))
                    = calls s1 @ [Publish ch x k js (publishOptions opts)]
                \<and> snd (publishToExchange e x k d opts s)
                    = publish_result e (calls s1 @ [Publish ch x k js (publishOptions opts)])))"
proof (intro conjI allI impI)
  show "read_prop (publishOptions opts) ''persistent''
           = (case opts of
                None \<Rightarrow> Some (JBool True)
              | Some ob \<Rightarrow>
                  (case read_prop ob ''persistent'' of
                     None \<Rightarrow> Some (JBool True)
                   | Some w \<Rightarrow> Some w))"
    by (rule persistent_default)
next
  fix s1 js
  assume a: "ensureConnection e s = (s1, Inr ()) \<and> JSON_stringify e d = Inr (Some js)"
  then obtain ch where ch: "channel s1 = Some ch"
    using ensureConnection_ok_channel [OF assms] by blast
  have 1: "calls (fst (sendToQueue e q d opts s))
             = calls s1 @ [SendToQueue ch q js (publishOptions opts)]"
    "snd (sendToQueue e q d opts s)
       = publish_result e (calls s1 @ [SendToQueue ch q js (publishOptions opts)])"
    using a ch by (simp_all add: sendToQueue_sent [where ch = ch and js = js] split: sum.splits)
  have 2: "calls (fst (publishToExchange e x k d opts s))
             = calls s1 @ [Publish ch x k js (publishOptions opts)]"
    "snd (publishToExchange e x k d opts s)
       = publish_result e (calls s1 @ [Publish ch x k js (publishOptions opts)])"
    using a ch
    by (simp_all add: publishToExchange_sent [where ch = ch and js = js] split: sum.splits)
  show "\<exists>ch. channel s1 = Some ch
                \<and> calls (fst (sendToQueue e q d opts s))
                    = calls s1 @ [SendToQueue ch q js (publishOptions opts)]
                \<and> snd (sendToQueue e q d opts s)
                    = publish_result e (calls s1 @ [SendToQueue ch q js (publishOptions opts)])
                \<and> calls (fst (publishToExchange e x k d opts s))
                    = calls s1 @ [Publish ch x k js (publishOptions opts)]
                \<and> snd (publishToExchange e x k d opts s)
                    = publish_result e (calls s1 @ [Publish ch x k js (publishOptions opts)])"
    using ch 1 2 by blast
qed (simp_all add: sendToQueue_not_connected publishToExchange_not_connected
      sendToQueue_unserialisable publishToExchange_unserialisable)


text \<open>Facts about the sample environments.\<close>

lemma sample_connected_ensure:
  "ensureConnection e sample_connected = (sample_connected, Inr ())"
  by (simp add: ensureConnection_def sample_connected_fields)

lemma sample_connected_reachable: "reachable broker_up sample_config sample_connected"
  unfolding sample_connected_def by (rule r_onModuleInit [OF r_constructor])

lemma sample_down:
  "ensureConnection broker_down (constructor sample_config)
     = ((constructor sample_config)
          \<lparr>calls := [Connect ''amqp://localhost:5672''],
           logged := [(ERROR, ''Failed to connect to RabbitMQ:'', Some (Error ''ECONNREFUSED''))]\<rparr>,
        Inl (Error ''ECONNREFUSED''))"
  by (simp add: ensureConnection_def constructor_def sample_config_def broker_down_def
      broker_up_def connectToRabbitMQ_def monad_defs)

lemma broker_up_answers:
  "connect_result broker_up h = Inr 1" "createChannel_result broker_up h = Inr 2"
  "void_result broker_up h = Inr ()" "publish_result broker_up h = Inr True"
  "consume_result broker_up h = Inr ''ctag''"
  "JSON_stringify broker_up (JObj []) = Inr (Some ''{}'')"
  "JSON_stringify broker_up JUndefined = Inr None"
  "JSON_stringify broker_up (JBigInt n)
     = Inl (TypeError ''Do not know how to serialize a BigInt'')"
  "JSON_parse broker_up ''{}'' = Inr (JObj [])"
  "JSON_parse broker_up ''{'' = Inl (Error ''SyntaxError'')"
  by (simp_all add: broker_up_def)

lemma publishing_propagates_sample:
  "reachable broker_up sample_config sample_connected
   \<and> ensureConnection broker_up sample_connected = (sample_connected, Inr ())
   \<and> JSON_stringify broker_up (JObj []) = Inr (Some ''{}'')
   \<and> calls (fst (sendToQueue broker_up ''q'' (JObj []) None sample_connected))
       = calls sample_connected @ [SendToQueue 2 ''q'' ''{}'' [(''persistent'', JBool True)]]
   \<and> snd (sendToQueue broker_up ''q'' (JObj []) None sample_connected) = Inr True
   \<and> calls (fst (publishToExchange broker_up ''x'' ''k'' (JObj []) None sample_connected))
       = calls sample_connected @ [Publish 2 ''x'' ''k'' ''{}'' [(''persistent'', JBool True)]]
   \<and> read_prop (publishOptions (Some [(''persistent'', JBool False)])) ''persistent''
       = Some (JBool False)
   \<and> JSON_stringify broker_up (JBigInt 1)
       = Inl (TypeError ''Do not know how to serialize a BigInt'')
   \<and> snd (sendToQueue broker_up ''q'' (JBigInt 1) None sample_connected)
       = Inl (TypeError ''Do not know how to serialize a BigInt'')
   \<and> JSON_stringify broker_up JUndefined = Inr None
   \<and> snd (publishToExchange broker_up ''x'' ''k'' JUndefined None sample_connected)
       = Inl (TypeError ''The first argument must be of type string or an instance of Buffer, ArrayBuffer, or Array or an Array-like Object. Received undefined'')
   \<and> reachable broker_down sample_config (constructor sample_config)
   \<and> snd (ensureConnection broker_down (constructor sample_config)) = Inl (Error ''ECONNREFUSED'')
   \<and> snd (sendToQueue broker_down ''q'' (JObj []) None (constructor sample_config))
       = Inl (Error ''ECONNREFUSED'')"
proof -
  have r2: "reachable broker_down sample_config (constructor sample_config)"
    by (rule r_constructor)
  have p: "publishOptions None = [(''persistent'', JBool True)]"
    by (simp add: publishOptions_def spread_def get_prop_def nullish_or_def)
  have q: "read_prop [(''persistent'', JBool False)] ''persistent'' = Some (JBool False)"
    by (simp add: read_prop_def)
  note t1 = publishing_propagates [OF sample_connected_reachable,
      of "Some [(''persistent'', JBool False)]" "''q''" "JObj []" "''x''" "''k''"]
  note t2 = publishing_propagates [OF sample_connected_reachable,
      of None "''q''" "JObj []" "''x''" "''k''"]
  note t3 = publishing_propagates [OF sample_connected_reachable,
      of None "''q''" "JBigInt 1" "''x''" "''k''"]
  note t4 = publishing_propagates [OF sample_connected_reachable,
      of None "''q''" "JUndefined" "''x''" "''k''"]
  note t5 = publishing_propagates [OF r2, of None "''q''" "JObj []" "''x''" "''k''"]
  show ?thesis
    using sample_connected_reachable r2 t1 t2 t3 t4 t5
    by (simp add: sample_connected_ensure sample_down broker_up_answers p q
        sample_connected_fields)
qed

text \<open>
  Claim C6 says that both methods pass \<open>persistent = true\<close> unless the caller's
  options override it. The source computes that default, \<open>options?.persistent ?? true\<close>,
  and then spreads \<open>options\<close> over it, so the computed value never takes effect where
  it differs from the caller's: for options whose \<open>persistent\<close> property is present with
  the value \<open>undefined\<close>, the default evaluates to \<open>true\<close>, the spread replaces it,
  and \<open>persistent = undefined\<close> is what the client receives, from \<open>sendToQueue\<close> and
  from \<open>publishToExchange\<close> alike.
\<close>

theorem persistent_default_discarded:
  "nullish_or (get_prop (Some [(''persistent'', JUndefined)]) ''persistent'') (JBool True)
     = JBool True
   \<and> publishOptions (Some [(''persistent'', JUndefined)])
       = [(''persistent'', JBool True), (''persistent'', JUndefined)]
   \<and> read_prop (publishOptions (Some [(''persistent'', JUndefined)])) ''persistent''
       = Some JUndefined
   \<and> sendToQueue broker_up ''q'' (JObj []) (Some [(''persistent'', JUndefined)]) sample_connected
       = (sample_connected
            \<lparr>calls := calls sample_connected
               @ [SendToQueue 2 ''q'' ''{}''
                    [(''persistent'', JBool True), (''persistent'', JUndefined)]]\<rparr>,
          Inr True)
   \<and> publishToExchange broker_up ''x'' ''k'' (JObj []) (Some [(''persistent'', JUndefined)])
         sample_connected
       = (sample_connected
            \<lparr>calls := calls sample_connected
               @ [Publish 2 ''x'' ''k'' ''{}''
                    [(''persistent'', JBool True), (''persistent'', JUndefined)]]\<rparr>,
          Inr True)"
proof -
  have p: "publishOptions (Some [(''persistent'', JUndefined)])
             = [(''persistent'', JBool True), (''persistent'', JUndefined)]"
    by (simp add: publishOptions_def spread_def get_prop_def read_prop_def nullish_or_def)
  have n: "nullish_or (get_prop (Some [(''persistent'', JUndefined)]) ''persistent'') (JBool True)
             = JBool True"
    by (simp add: get_prop_def read_prop_def nullish_or_def)
  have r: "read_prop [(''persistent'', JBool True), (''persistent'', JUndefined)] ''persistent''
             = Some JUndefined"
    by (simp add: read_prop_def)
  have s: "sendToQueue broker_up ''q'' (JObj []) (Some [(''persistent'', JUndefined)])
             sample_connected
           = (sample_connected
                \<lparr>calls := calls sample_connected
                   @ [SendToQueue 2 ''q'' ''{}''
                        [(''persistent'', JBool True), (''persistent'', JUndefined)]]\<rparr>,
              Inr True)"
    using sendToQueue_sent [OF sample_connected_ensure sample_connected_fields(2)
        broker_up_answers(6), of "''q''" "Some [(''persistent'', JUndefined)]"]
    by (simp add: p broker_up_answers)
  have x: "publishToExchange broker_up ''x'' ''k'' (JObj []) (Some [(''persistent'', JUndefined)])
             sample_connected
           = (sample_connected
                \<lparr>calls := calls sample_connected
                   @ [Publish 2 ''x'' ''k'' ''{}''
                        [(''persistent'', JBool True), (''persistent'', JUndefined)]]\<rparr>,
              Inr True)"
    using publishToExchange_sent [OF sample_connected_ensure sample_connected_fields(2)
        broker_up_answers(6), of "''x''" "''k''" "Some [(''persistent'', JUndefined)]"]
    by (simp add: p broker_up_answers)
  show ?thesis
    using n p r s x by simp
qed

section \<open>Emitting events\<close>

text \<open>
  Claim C2. For every event name, payload, options, state and broker behaviour,
  \<open>emitEvent\<close> returns without throwing. When the broker is disabled it only logs and
  makes no call on the broker. When enabled it runs \<open>sendToQueue\<close> on the queue
  \<open>events.\<close> followed by the event name; if that throws, the error is logged and
  \<open>emitEvent\<close> still returns normally. On a connected service with a serialisable
  payload the one broker call made is the send to that queue.
\<close>

theorem emitEvent_never_throws:
  "snd (emitEvent e n d opts s) = Inr ()
   \<and> (\<not> rabbitMQEnabled s \<longrightarrow>
        emitEvent e n d opts s
          = (s\<lparr>logged := logged s @ [(LOG, ''Event emitted: '' @ n, None)]\<rparr>, Inr ()))
   \<and> (rabbitMQEnabled s \<longrightarrow>
        (\<forall>s1 b. sendToQueue e (''events.'' @ n) d opts
                   (s\<lparr>logged := logged s @ [(LOG, ''Event emitted: '' @ n, None)]\<rparr>)
                   = (s1, Inr b) \<longrightarrow>
           emitEvent e n d opts s = (s1, Inr ()))
      \<and> (\<forall>s1 err. sendToQueue e (''events.'' @ n) d opts
                     (s\<lparr>logged := logged s @ [(LOG, ''Event emitted: '' @ n, None)]\<rparr>)
                     = (s1, Inl err) \<longrightarrow>
           emitEvent e n d opts s
             = (s1\<lparr>logged := logged s1
                   @ [(ERROR, ''Failed to send event '' @ n @ '' to RabbitMQ:'', Some err)]\<rparr>,
                Inr ())))
   \<and> (\<forall>c ch js. rabbitMQEnabled s \<and> connection s = Some c \<and> channel s = Some ch
          \<and> JSON_stringify e d = Inr (Some js) \<longrightarrow>
        calls (fst (emitEvent e n d opts s))
          = calls s @ [SendToQueue ch (''events.'' @ n) js (publishOptions opts)])"
proof (intro conjI allI impI)
  show "snd (emitEvent e n d opts s) = Inr ()"
    by (simp add: emitEvent_def monad_defs split: prod.splits sum.splits)
next
  fix c ch js
  assume a: "rabbitMQEnabled s \<and> connection s = Some c \<and> channel s = Some ch
          \<and> JSON_stringify e d = Inr (Some js)"
  let ?s0 = "s\<lparr>logged := logged s @ [(LOG, ''Event emitted: '' @ n, None)]\<rparr>"
  have en: "ensureConnection e ?s0 = (?s0, Inr ())"
    using a by (simp add: ensureConnection_def)
  have ch: "channel ?s0 = Some ch"
    using a by simp
  have sq: "calls (fst (sendToQueue e (''events.'' @ n) d opts ?s0))
          = calls s @ [SendToQueue ch (''events.'' @ n) js (publishOptions opts)]"
    using a sendToQueue_sent [OF en ch, where q = "''events.'' @ n" and opts = opts and js = js]
    by (simp split: sum.splits)
  have "calls (fst (emitEvent e n d opts s))
          = calls (fst (sendToQueue e (''events.'' @ n) d opts ?s0))"
    using a by (simp add: emitEvent_def monad_defs split: prod.splits sum.splits)
  with sq show "calls (fst (emitEvent e n d opts s))
          = calls s @ [SendToQueue ch (''events.'' @ n) js (publishOptions opts)]"
    by simp
qed (simp_all add: emitEvent_def monad_defs)

theorem emitEvent_never_throws_witness:
  "\<not> rabbitMQEnabled (constructor None)
   \<and> emitEvent broker_down ''test'' (JObj []) None (constructor None)
       = ((constructor None)\<lparr>logged := [(LOG, ''Event emitted: test'', None)]\<rparr>, Inr ())
   \<and> rabbitMQEnabled (constructor sample_config)
   \<and> emitEvent broker_down ''test'' (JObj []) None (constructor sample_config)
       = ((constructor sample_config)
            \<lparr>calls := [Connect ''amqp://localhost:5672''],
             logged := [(LOG, ''Event emitted: test'', None),
                        (ERROR, ''Failed to connect to RabbitMQ:'', Some (Error ''ECONNREFUSED'')),
                        (ERROR, ''Failed to send event test to RabbitMQ:'',
                         Some (Error ''ECONNREFUSED''))]\<rparr>,
          Inr ())
   \<and> rabbitMQEnabled sample_connected
   \<and> calls (fst (emitEvent broker_up ''test'' (JObj []) None sample_connected))
       = calls sample_connected
           @ [SendToQueue 2 ''events.test'' ''{}'' [(''persistent'', JBool True)]]
   \<and> snd (emitEvent broker_up ''test'' (JObj []) None sample_connected) = Inr ()"
proof -
  have n: "\<not> rabbitMQEnabled (constructor None)" "logged (constructor None) = []"
    by (simp_all add: constructor_def)
  have en: "rabbitMQEnabled (constructor sample_config)" "logged (constructor sample_config) = []"
    by (simp_all add: constructor_def sample_config_def)
  have p: "publishOptions None = [(''persistent'', JBool True)]"
    by (simp add: publishOptions_def spread_def get_prop_def nullish_or_def)
  have d: "sendToQueue broker_down ''events.test'' (JObj []) None
             ((constructor sample_config)\<lparr>logged := [(LOG, ''Event emitted: test'', None)]\<rparr>)
           = ((constructor sample_config)
            \<lparr>calls := [Connect ''amqp://localhost:5672''],
             logged := [(LOG, ''Event emitted: test'', None),
                        (ERROR, ''Failed to connect to RabbitMQ:'', Some (Error ''ECONNREFUSED''))]\<rparr>,
              Inl (Error ''ECONNREFUSED''))"
    by (simp add: sendToQueue_def ensureConnection_def constructor_def sample_config_def
        broker_down_def broker_up_def connectToRabbitMQ_def monad_defs)
  show ?thesis
    using emitEvent_never_throws [of broker_down "''test''" "JObj []" None "constructor None"]
      emitEvent_never_throws [of broker_down "''test''" "JObj []" None "constructor sample_config"]
      emitEvent_never_throws [of broker_up "''test''" "JObj []" None sample_connected]
    by (simp add: n en p d sample_connected_fields broker_up_answers)
qed

section \<open>Deliveries\<close>

lemma ack_cases:
  "channel s = Some ch \<Longrightarrow>
     ack e msg s = (s\<lparr>calls := calls s @ [Ack ch msg]\<rparr>, void_result e (calls s @ [Ack ch msg]))"
  "channel s = None \<Longrightarrow> ack e msg s = (s, Inl (TypeError ''Cannot read properties of null''))"
  by (simp_all add: ack_def monad_defs)

lemma nack_cases:
  "channel s = Some ch \<Longrightarrow>
     nack e msg (Some True) s
       = (s\<lparr>calls := calls s @ [Nack ch msg False True]\<rparr>,
          void_result e (calls s @ [Nack ch msg False True]))"
  "channel s = Some ch \<Longrightarrow>
     nack e msg (Some False) s
       = (s\<lparr>calls := calls s @ [Reject ch msg False]\<rparr>,
          void_result e (calls s @ [Reject ch msg False]))"
  "channel s = Some ch \<Longrightarrow>
     nack e msg None s
       = (s\<lparr>calls := calls s @ [Reject ch msg False]\<rparr>,
          void_result e (calls s @ [Reject ch msg False]))"
  "channel s = None \<Longrightarrow> nack e msg rq s = (s, Inl (TypeError ''Cannot read properties of null''))"
  by (simp_all add: nack_def monad_defs)

lemma closure_step_refl: "closure_step msg s s"
  unfolding closure_step_def by (rule exI [of _ "[]"]) simp

lemma closure_step_trans:
  "closure_step msg s s' \<Longrightarrow> closure_step msg s' s'' \<Longrightarrow> closure_step msg s s''"
  unfolding closure_step_def
proof (elim exE conjE)
  fix cs cs'
  assume "s' = s\<lparr>calls := calls s @ cs\<rparr>" "list_all (concerns msg) cs"
    "s'' = s'\<lparr>calls := calls s' @ cs'\<rparr>" "list_all (concerns msg) cs'"
  then have "s'' = s\<lparr>calls := calls s @ (cs @ cs')\<rparr> \<and> list_all (concerns msg) (cs @ cs')"
    by simp
  then show "\<exists>cs. s'' = s\<lparr>calls := calls s @ cs\<rparr> \<and> list_all (concerns msg) cs"
    by blast
qed

lemma closure_step_ack: "closure_step msg s (fst (ack e msg s))"
proof (cases "channel s")
  case None
  then show ?thesis by (simp add: ack_cases closure_step_refl)
next
  case (Some ch)
  then show ?thesis
    unfolding closure_step_def
    by (intro exI [of _ "[Ack ch msg]"]) (simp add: ack_cases)
qed

lemma closure_step_nack: "closure_step msg s (fst (nack e msg rq s))"
proof (cases "channel s")
  case None
  then show ?thesis by (simp add: nack_cases closure_step_refl)
next
  case (Some ch)
  show ?thesis
  proof (cases "rq = Some True")
    case True
    with Some show ?thesis
      unfolding closure_step_def
      by (intro exI [of _ "[Nack ch msg False True]"]) (simp add: nack_cases)
  next
    case False
    then have "rq = None \<or> rq = Some False" by (cases rq) auto
    with Some show ?thesis
      unfolding closure_step_def
      by (intro exI [of _ "[Reject ch msg False]"]) (auto simp add: nack_cases)
  qed
qed

lemma closure_step_run_script: "closure_step msg s (fst (run_script e msg p s))"
proof (induction p arbitrary: s)
  case (Return r)
  show ?case by (simp add: ret_def closure_step_refl)
next
  case (Throw err)
  show ?case by (simp add: throw_def closure_step_refl)
next
  case (CallAck k)
  have "closure_step msg (fst (ack e msg s))
          (fst (run_script e msg (k (thrown (snd (ack e msg s)))) (fst (ack e msg s))))"
    by (rule CallAck.IH) simp
  from closure_step_trans [OF closure_step_ack this] show ?case
    by (simp add: split_beta)
next
  case (CallNack rq k)
  have "closure_step msg (fst (nack e msg rq s))
          (fst (run_script e msg (k (thrown (snd (nack e msg rq s)))) (fst (nack e msg rq s))))"
    by (rule CallNack.IH) simp
  from closure_step_trans [OF closure_step_nack this] show ?case
    by (simp add: split_beta)
qed

lemma on_message_malformed:
  assumes "JSON_parse e (content msg) = Inl err"
  shows "on_message e h (Some msg) s
           = (case channel s of
                None \<Rightarrow>
                  (s\<lparr>logged := logged s @ [(ERROR, ''Error processing message:'', Some err)]\<rparr>,
                   Inl (TypeError ''Cannot read properties of null''))
              | Some ch \<Rightarrow>
                  (s\<lparr>calls := calls s @ [Reject ch msg False],
                      logged := logged s @ [(ERROR, ''Error processing message:'', Some err)]\<rparr>,
                   void_result e (calls s @ [Reject ch msg False])))"
  using assms by (simp add: on_message_def monad_defs split: option.splits)

lemma on_message_decoded:
  assumes "JSON_parse e (content msg) = Inr c"
  shows "on_message e h (Some msg) s
           = (case invoke e h msg
                     \<lparr>content_info = c, fields_info = fields_msg msg,
                      properties_info = properties msg\<rparr> s of
                (s1, Inr u) \<Rightarrow> (s1, Inr ())
              | (s1, Inl err) \<Rightarrow>
                  (case channel s1 of
                     None \<Rightarrow>
                       (s1\<lparr>logged := logged s1
                            @ [(ERROR, ''Error processing message:'', Some err)]\<rparr>,
                        Inl (TypeError ''Cannot read properties of null''))
                   | Some ch \<Rightarrow>
                       (s1\<lparr>calls := calls s1 @ [Reject ch msg False],
                           logged := logged s1
                             @ [(ERROR, ''Error processing message:'', Some err)]\<rparr>,
                        void_result e (calls s1 @ [Reject ch msg False]))))"
  using assms by (simp add: on_message_def monad_defs split: option.splits prod.splits sum.splits)

lemma closure_step_invoke:
  "closure_step msg (s\<lparr>invoked := invoked s @ [info]\<rparr>) (fst (invoke e h msg info s))"
  unfolding invoke_def by (rule closure_step_run_script)

lemma closure_step_fields:
  assumes "closure_step msg s s'"
  shows "invoked s' = invoked s" "logged s' = logged s" "channel s' = channel s"
    "connection s' = connection s"
    "\<exists>cs. calls s' = calls s @ cs \<and> list_all (concerns msg) cs"
  using assms unfolding closure_step_def by auto

lemma on_message_calls:
  "\<exists>cs. calls (fst (on_message e h (Some msg) s)) = calls s @ cs \<and> list_all (concerns msg) cs"
proof (cases "JSON_parse e (content msg)")
  case (Inl err)
  show ?thesis
  proof (cases "channel s")
    case None
    with Inl show ?thesis by (simp add: on_message_malformed)
  next
    case (Some ch)
    with Inl show ?thesis by (simp add: on_message_malformed)
  qed
next
  case (Inr c)
  let ?info = "\<lparr>content_info = c, fields_info = fields_msg msg, properties_info = properties msg\<rparr>"
  obtain s1 r where run: "invoke e h msg ?info s = (s1, r)"
    by (cases "invoke e h msg ?info s")
  from closure_step_invoke [of msg s ?info e h] run
  have st: "closure_step msg (s\<lparr>invoked := invoked s @ [?info]\<rparr>) s1"
    by simp
  from closure_step_fields(5) [OF st] obtain cs
    where cs: "calls s1 = calls s @ cs" "list_all (concerns msg) cs"
    by auto
  show ?thesis
  proof (cases r)
    case (Inr u)
    with run cs show ?thesis
      by (simp add: on_message_decoded [OF \<open>JSON_parse e (content msg) = Inr c\<close>])
  next
    case (Inl err)
    show ?thesis
    proof (cases "channel s1")
      case None
      with Inl run cs show ?thesis
        by (simp add: on_message_decoded [OF \<open>JSON_parse e (content msg) = Inr c\<close>])
    next
      case (Some ch)
      have "calls (fst (on_message e h (Some msg) s)) = calls s @ (cs @ [Reject ch msg False])"
        using Some Inl run cs
        by (simp add: on_message_decoded [OF \<open>JSON_parse e (content msg) = Inr c\<close>])
      moreover have "list_all (concerns msg) (cs @ [Reject ch msg False])"
        using cs by simp
      ultimately show ?thesis by blast
    qed
  qed
qed

lemma on_message_invoked:
  assumes "JSON_parse e (content msg) = Inr c"
  shows "invoked (fst (on_message e h (Some msg) s))
           = invoked s @ [\<lparr>content_info = c, fields_info = fields_msg msg,
                            properties_info = properties msg\<rparr>]"
proof -
  let ?info = "\<lparr>content_info = c, fields_info = fields_msg msg, properties_info = properties msg\<rparr>"
  obtain s1 r where run: "invoke e h msg ?info s = (s1, r)"
    by (cases "invoke e h msg ?info s")
  from closure_step_invoke [of msg s ?info e h] run
  have st: "closure_step msg (s\<lparr>invoked := invoked s @ [?info]\<rparr>) s1"
    by simp
  from closure_step_fields(1) [OF st] have "invoked s1 = invoked s @ [?info]"
    by simp
  then show ?thesis
    using run by (simp add: on_message_decoded [OF assms] split: sum.splits option.splits)
qed

lemma noAck_default:
  "read_prop (consumeOptions opts) ''noAck''
     = (case opts of
          None \<Rightarrow> Some (JBool False)
        | Some ob \<Rightarrow> (case read_prop ob ''noAck'' of None \<Rightarrow> Some (JBool False) | Some w \<Rightarrow> Some w))"
  by (simp add: consumeOptions_def read_prop_spread)

lemma consume_registers:
  assumes "ensureConnection e s = (s1, Inr ())" and "channel s1 = Some ch"
  shows "consume e q h opts s
           = (s1\<lparr>calls := calls s1 @ [Consume ch q (consumeOptions opts)]\<rparr>,
              consume_result e (calls s1 @ [Consume ch q (consumeOptions opts)]))"
  using assms by (simp add: consume_def monad_defs split: sum.splits)

text \<open>
  While a consumer is being served a channel is cached: \<open>consume\<close> returns only with
  a channel, and no operation but the teardown clears the field.
\<close>

lemma kc_ret: "keeps_channel (ret v)"
  by (simp add: keeps_channel_def ret_def)

lemma kc_throw: "keeps_channel (throw err)"
  by (simp add: keeps_channel_def throw_def)

lemma kc_seq: "keeps_channel m \<Longrightarrow> (\<And>v. keeps_channel (f v)) \<Longrightarrow> keeps_channel (seq m f)"
  unfolding keeps_channel_def seq_def
  by (auto split: prod.splits sum.splits)

lemma kc_try_catch:
  "keeps_channel m \<Longrightarrow> (\<And>err. keeps_channel (h err)) \<Longrightarrow> keeps_channel (try_catch m h)"
  unfolding keeps_channel_def try_catch_def
  by (auto split: prod.splits sum.splits)

lemma kc_client: "keeps_channel (client c a)"
  by (simp add: keeps_channel_def client_def Let_def)

lemma kc_logger: "keeps_channel (logger_log m)" "keeps_channel (logger_warn m)"
  "keeps_channel (logger_error m err)"
  by (simp_all add: keeps_channel_def logger_log_def logger_warn_def logger_error_def)

lemma kc_connection_on: "keeps_channel (connection_on c ev)"
  by (simp add: keeps_channel_def connection_on_def)

lemma kc_the_channel: "keeps_channel the_channel"
  by (simp add: keeps_channel_def the_channel_def split: option.splits)

lemma kc_assign:
  "keeps_channel (\<lambda>s. (s\<lparr>connection := x\<rparr>, Inr ()))"
  "keeps_channel (\<lambda>s. (s\<lparr>channel := Some ch\<rparr>, Inr ()))"
  "keeps_channel (\<lambda>s. (s, r))"
  by (simp_all add: keeps_channel_def)

lemma kc_case_option:
  "keeps_channel a \<Longrightarrow> (\<And>x. keeps_channel (b x)) \<Longrightarrow>
   keeps_channel (\<lambda>s. case f s of None \<Rightarrow> a s | Some x \<Rightarrow> b x s)"
  by (simp add: keeps_channel_def split: option.splits)

lemma kc_case_const:
  "keeps_channel a \<Longrightarrow> (\<And>x. keeps_channel (b x)) \<Longrightarrow>
   keeps_channel (case p of None \<Rightarrow> a | Some x \<Rightarrow> b x)"
  by (cases p) simp_all

lemma kc_if:
  "keeps_channel a \<Longrightarrow> keeps_channel b \<Longrightarrow> keeps_channel (\<lambda>s. if P s then a s else b s)"
  by (simp add: keeps_channel_def)

lemma kc_if_const:
  "keeps_channel a \<Longrightarrow> keeps_channel b \<Longrightarrow> keeps_channel (if P then a else b)"
  by simp

lemmas kc_intros = kc_seq kc_try_catch kc_case_option kc_case_const kc_if kc_if_const
  kc_ret kc_throw kc_client kc_logger kc_connection_on kc_the_channel kc_assign

lemma kc_connectToRabbitMQ: "keeps_channel (connectToRabbitMQ e)"
proof -
  have "keeps_channel (\<lambda>s. connectToRabbitMQ e s)"
    unfolding connectToRabbitMQ_def by (intro kc_intros)
  then show ?thesis by simp
qed

lemma kc_ensureConnection: "keeps_channel (ensureConnection e)"
proof -
  have "keeps_channel (\<lambda>s. ensureConnection e s)"
    unfolding ensureConnection_def by (intro kc_intros kc_connectToRabbitMQ)
  then show ?thesis by simp
qed

lemma kc_onModuleInit: "keeps_channel (onModuleInit e)"
proof -
  have "keeps_channel (\<lambda>s. onModuleInit e s)"
    unfolding onModuleInit_def by (intro kc_intros kc_connectToRabbitMQ)
  then show ?thesis by simp
qed

lemma kc_Buffer_from: "keeps_channel (Buffer_from x)"
  by (cases x) (simp_all add: Buffer_from_def kc_ret kc_throw)

lemma kc_sendToQueue: "keeps_channel (sendToQueue e q d opts)"
  unfolding sendToQueue_def by (intro kc_intros kc_ensureConnection kc_Buffer_from)

lemma kc_publishToExchange: "keeps_channel (publishToExchange e x k d opts)"
  unfolding publishToExchange_def by (intro kc_intros kc_ensureConnection kc_Buffer_from)

lemma kc_emitEvent: "keeps_channel (emitEvent e n d opts)"
  unfolding emitEvent_def by (intro kc_intros kc_sendToQueue)

lemma kc_createQueue: "keeps_channel (createQueue e q opts)"
  unfolding createQueue_def by (intro kc_intros kc_ensureConnection)

lemma kc_createExchange: "keeps_channel (createExchange e x xopts)"
  unfolding createExchange_def by (intro kc_intros kc_ensureConnection)

lemma kc_consume: "keeps_channel (consume e q h opts)"
  unfolding consume_def by (intro kc_intros kc_ensureConnection)

lemma kc_ack: "keeps_channel (ack e msg)"
  unfolding ack_def by (intro kc_intros)

lemma kc_nack: "keeps_channel (nack e msg rq)"
  unfolding nack_def by (intro kc_intros)

lemma on_message_channel: "channel (fst (on_message e h m s)) = channel s"
proof (cases m)
  case None
  then show ?thesis by (simp add: on_message_def ret_def)
next
  case (Some msg)
  show ?thesis
  proof (cases "JSON_parse e (content msg)")
    case (Inl err)
    then show ?thesis
      using Some by (simp add: on_message_malformed split: option.splits)
  next
    case (Inr c)
    let ?info = "\<lparr>content_info = c, fields_info = fields_msg msg, properties_info = properties msg\<rparr>"
    obtain s1 r where run: "invoke e h msg ?info s = (s1, r)"
      by (cases "invoke e h msg ?info s")
    from closure_step_invoke [of msg s ?info e h] run
    have "closure_step msg (s\<lparr>invoked := invoked s @ [?info]\<rparr>) s1"
      by simp
    from closure_step_fields(3) [OF this] have "channel s1 = channel s"
      by simp
    then show ?thesis
      using Some run by (simp add: on_message_decoded [OF Inr] split: sum.splits option.splits)
  qed
qed

lemma kc_on_message: "keeps_channel (on_message e h m)"
  by (simp add: keeps_channel_def on_message_channel)

lemma kc_observers: "keeps_channel (on_connection_error err)" "keeps_channel on_connection_close"
  by (simp_all add: on_connection_error_def on_connection_close_def kc_logger)

lemma consume_ok_channel:
  assumes "reachable e cfg s" and "consume e q h opts s = (s1, Inr tag)"
  shows "\<exists>ch. channel s1 = Some ch"
proof -
  obtain s0 r where en: "ensureConnection e s = (s0, r)"
    by (cases "ensureConnection e s")
  with assms(2) have r: "r = Inr ()"
    by (cases r) (simp_all add: consume_def seq_def)
  from ensureConnection_ok_channel [OF assms(1)] en r obtain ch where ch: "channel s0 = Some ch"
    by blast
  from consume_registers [OF en [unfolded r] ch, of q h opts] assms(2)
  have "s1 = s0\<lparr>calls := calls s0 @ [Consume ch q (consumeOptions opts)]\<rparr>"
    by simp
  with ch show ?thesis by simp
qed

lemma kc_app:
  "keeps_channel m \<Longrightarrow> \<exists>ch. channel s = Some ch \<Longrightarrow> \<exists>ch. channel (fst (m s)) = Some ch"
  by (auto simp add: keeps_channel_def)

lemma live_channel: "live e cfg s \<Longrightarrow> \<exists>ch. channel s = Some ch"
proof (induction rule: live.induct)
  case (l_consume s q h opts s1 tag)
  then show ?case by (rule consume_ok_channel)
next
  case (l_onModuleInit s)
  then show ?case by (intro kc_app [OF kc_onModuleInit])
next
  case (l_emitEvent s n d opts)
  then show ?case by (intro kc_app [OF kc_emitEvent])
next
  case (l_sendToQueue s q d opts)
  then show ?case by (intro kc_app [OF kc_sendToQueue])
next
  case (l_publishToExchange s x k d opts)
  then show ?case by (intro kc_app [OF kc_publishToExchange])
next
  case (l_createQueue s q opts)
  then show ?case by (intro kc_app [OF kc_createQueue])
next
  case (l_createExchange s x xopts)
  then show ?case by (intro kc_app [OF kc_createExchange])
next
  case (l_consume_again s q h opts)
  then show ?case by (intro kc_app [OF kc_consume])
next
  case (l_on_message s h m)
  then show ?case by (intro kc_app [OF kc_on_message])
next
  case (l_on_error s err)
  then show ?case by (intro kc_app [OF kc_observers(1)])
next
  case (l_on_close s)
  then show ?case by (intro kc_app [OF kc_observers(2)])
next
  case (l_ack s msg)
  then show ?case by (intro kc_app [OF kc_ack])
next
  case (l_nack s msg rq)
  then show ?case by (intro kc_app [OF kc_nack])
qed

text \<open>
  How the callback runs a handler's script: each call of \<open>ack\<close> or \<open>nack\<close> in it
  becomes, on the cached channel, the client call for the message being delivered, and
  the handler goes on with whether that call threw.
\<close>

lemma run_script_steps:
  assumes "channel t = Some ch"
  shows "run_script e msg (CallAck k) t
           = run_script e msg (k (thrown (void_result e (calls t @ [Ack ch msg]))))
               (t\<lparr>calls := calls t @ [Ack ch msg]\<rparr>)"
    and "run_script e msg (CallNack (Some True) k) t
           = run_script e msg (k (thrown (void_result e (calls t @ [Nack ch msg False True]))))
               (t\<lparr>calls := calls t @ [Nack ch msg False True]\<rparr>)"
    and "run_script e msg (CallNack (Some False) k) t
           = run_script e msg (k (thrown (void_result e (calls t @ [Reject ch msg False]))))
               (t\<lparr>calls := calls t @ [Reject ch msg False]\<rparr>)"
    and "run_script e msg (CallNack None k) t
           = run_script e msg (k (thrown (void_result e (calls t @ [Reject ch msg False]))))
               (t\<lparr>calls := calls t @ [Reject ch msg False]\<rparr>)"
  using assms by (simp_all add: ack_cases nack_cases)

lemma on_message_single_call:
  assumes "JSON_parse e (content msg) = Inr c" and "channel s = Some ch"
  shows "h \<lparr>content_info = c, fields_info = fields_msg msg, properties_info = properties msg\<rparr>
           = CallAck (\<lambda>_. Return Void) \<Longrightarrow>
         on_message e h (Some msg) s
           = (s\<lparr>calls := calls s @ [Ack ch msg],
                 invoked := invoked s @ [\<lparr>content_info = c, fields_info = fields_msg msg,
                              properties_info = properties msg\<rparr>]\<rparr>,
              Inr ())"
    and "h \<lparr>content_info = c, fields_info = fields_msg msg, properties_info = properties msg\<rparr>
           = CallNack (Some True) (\<lambda>_. Return Void) \<Longrightarrow>
         on_message e h (Some msg) s
           = (s\<lparr>calls := calls s @ [Nack ch msg False True],
                 invoked := invoked s @ [\<lparr>content_info = c, fields_info = fields_msg msg,
                              properties_info = properties msg\<rparr>]\<rparr>,
              Inr ())"
    and "h \<lparr>content_info = c, fields_info = fields_msg msg, properties_info = properties msg\<rparr>
           = CallNack (Some False) (\<lambda>_. Return Void) \<Longrightarrow>
         on_message e h (Some msg) s
           = (s\<lparr>calls := calls s @ [Reject ch msg False],
                 invoked := invoked s @ [\<lparr>content_info = c, fields_info = fields_msg msg,
                              properties_info = properties msg\<rparr>]\<rparr>,
              Inr ())"
    and "h \<lparr>content_info = c, fields_info = fields_msg msg, properties_info = properties msg\<rparr>
           = CallNack None (\<lambda>_. Return Void) \<Longrightarrow>
         on_message e h (Some msg) s
           = (s\<lparr>calls := calls s @ [Reject ch msg False],
                 invoked := invoked s @ [\<lparr>content_info = c, fields_info = fields_msg msg,
                              properties_info = properties msg\<rparr>]\<rparr>,
              Inr ())"
  using assms
  by (simp_all add: on_message_decoded invoke_def ack_cases nack_cases ret_def)

text \<open>
  Claim C5. For every delivery to the consume callback: when decoding the payload fails,
  the user handler is not invoked, the error is logged, and, a channel being cached (as
  it is in every state in which a consumer is being served), the one broker call made
  is \<open>reject\<close> of that message without requeue; when decoding
  succeeds, the handler is invoked once, with the decoded content and the message's
  fields and properties, and when its run returns normally that is the outcome of the
  callback. The callables the handler receives are bound to the message: each call of
  \<open>ack\<close> in the handler's run sends \<open>ack\<close> of that message on the cached channel,
  each \<open>nack(true)\<close> sends \<open>nack\<close> of it with requeue, each \<open>nack(false)\<close> or
  \<open>nack()\<close> sends \<open>reject\<close> of it without requeue, and the handler continues with
  the outcome of that call; so a handler that makes one such call and returns leaves
  exactly that call. Every broker call made during the delivery is one of these three,
  of that very message. The options that
  \<open>consume\<close> passes to the client have \<open>noAck = false\<close> unless the caller's options
  define \<open>noAck\<close>.
\<close>

theorem consume_delivery:
  "(\<forall>err. JSON_parse e (content msg) = Inl err \<longrightarrow>
       invoked (fst (on_message e h (Some msg) s)) = invoked s
     \<and> logged (fst (on_message e h (Some msg) s))
         = logged s @ [(ERROR, ''Error processing message:'', Some err)]
     \<and> (\<forall>ch. channel s = Some ch \<longrightarrow>
           calls (fst (on_message e h (Some msg) s)) = calls s @ [Reject ch msg False]))
   \<and> (\<forall>c. JSON_parse e (content msg) = Inr c \<longrightarrow>
       invoked (fst (on_message e h (Some msg) s))
         = invoked s @ [\<lparr>content_info = c, fields_info = fields_msg msg,
                          properties_info = properties msg\<rparr>]
     \<and> (\<forall>s1. run_script e msg
                 (h \<lparr>content_info = c, fields_info = fields_msg msg,
                     properties_info = properties msg\<rparr>)
                 (s\<lparr>invoked := invoked s @ [\<lparr>content_info = c, fields_info = fields_msg msg,
                          properties_info = properties msg\<rparr>]\<rparr>) = (s1, Inr ()) \<longrightarrow>
           on_message e h (Some msg) s = (s1, Inr ())))
   \<and> (\<exists>cs. calls (fst (on_message e h (Some msg) s)) = calls s @ cs
           \<and> list_all (concerns msg) cs)
   \<and> (\<forall>ch. channel s = Some ch \<longrightarrow>
         ack e msg s
           = (s\<lparr>calls := calls s @ [Ack ch msg]\<rparr>, void_result e (calls s @ [Ack ch msg]))
       \<and> nack e msg (Some True) s
           = (s\<lparr>calls := calls s @ [Nack ch msg False True]\<rparr>,
              void_result e (calls s @ [Nack ch msg False True]))
       \<and> nack e msg (Some False) s
           = (s\<lparr>calls := calls s @ [Reject ch msg False]\<rparr>,
              void_result e (calls s @ [Reject ch msg False]))
       \<and> nack e msg None s
           = (s\<lparr>calls := calls s @ [Reject ch msg False]\<rparr>,
              void_result e (calls s @ [Reject ch msg False])))
   \<and> (\<forall>t r. run_script e msg (Return r) t = (t, Inr ()))
   \<and> (\<forall>t k ch. channel t = Some ch \<longrightarrow>
         run_script e msg (CallAck k) t
           = run_script e msg (k (thrown (void_result e (calls t @ [Ack ch msg]))))
               (t\<lparr>calls := calls t @ [Ack ch msg]\<rparr>)
       \<and> run_script e msg (CallNack (Some True) k) t
           = run_script e msg (k (thrown (void_result e (calls t @ [Nack ch msg False True]))))
               (t\<lparr>calls := calls t @ [Nack ch msg False True]\<rparr>)
       \<and> run_script e msg (CallNack (Some False) k) t
           = run_script e msg (k (thrown (void_result e (calls t @ [Reject ch msg False]))))
               (t\<lparr>calls := calls t @ [Reject ch msg False]\<rparr>)
       \<and> run_script e msg (CallNack None k) t
           = run_script e msg (k (thrown (void_result e (calls t @ [Reject ch msg False]))))
               (t\<lparr>calls := calls t @ [Reject ch msg False]\<rparr>))
   \<and> (\<forall>c ch. JSON_parse e (content msg) = Inr c \<and> channel s = Some ch \<longrightarrow>
         (h \<lparr>content_info = c, fields_info = fields_msg msg,
             properties_info = properties msg\<rparr> = CallAck (\<lambda>_. Return Void) \<longrightarrow>
          on_message e h (Some msg) s
            = (s\<lparr>calls := calls s @ [Ack ch msg],
                  invoked := invoked s @ [\<lparr>content_info = c, fields_info = fields_msg msg,
                               properties_info = properties msg\<rparr>]\<rparr>,
               Inr ()))
       \<and> (h \<lparr>content_info = c, fields_info = fields_msg msg,
             properties_info = properties msg\<rparr> = CallNack (Some True) (\<lambda>_. Return Void) \<longrightarrow>
          on_message e h (Some msg) s
            = (s\<lparr>calls := calls s @ [Nack ch msg False True],
                  invoked := invoked s @ [\<lparr>content_info = c, fields_info = fields_msg msg,
                               properties_info = properties msg\<rparr>]\<rparr>,
               Inr ()))
       \<and> (h \<lparr>content_info = c, fields_info = fields_msg msg,
             properties_info = properties msg\<rparr> = CallNack (Some False) (\<lambda>_. Return Void) \<longrightarrow>
          on_message e h (Some msg) s
            = (s\<lparr>calls := calls s @ [Reject ch msg False],
                  invoked := invoked s @ [\<lparr>content_info = c, fields_info = fields_msg msg,
                               properties_info = properties msg\<rparr>]\<rparr>,
               Inr ()))
       \<and> (h \<lparr>content_info = c, fields_info = fields_msg msg,
             properties_info = properties msg\<rparr> = CallNack None (\<lambda>_. Return Void) \<longrightarrow>
          on_message e h (Some msg) s
            = (s\<lparr>calls := calls s @ [Reject ch msg False],
                  invoked := invoked s @ [\<lparr>content_info = c, fields_info = fields_msg msg,
                               properties_info = properties msg\<rparr>]\<rparr>,
               Inr ())))
   \<and> read_prop (consumeOptions opts) ''noAck''
       = (case opts of
            None \<Rightarrow> Some (JBool False)
          | Some ob \<Rightarrow>
              (case read_prop ob ''noAck'' of None \<Rightarrow> Some (JBool False) | Some w \<Rightarrow> Some w))
   \<and> (\<forall>s1 ch. ensureConnection e s = (s1, Inr ()) \<and> channel s1 = Some ch \<longrightarrow>
         calls (fst (consume e q h opts s)) = calls s1 @ [Consume ch q (consumeOptions opts)])
   \<and> (live e cfg s \<longrightarrow> (\<exists>ch. channel s = Some ch))"
proof (intro conjI allI impI)
  assume "live e cfg s"
  then show "\<exists>ch. channel s = Some ch"
    by (rule live_channel)
next
  show "\<exists>cs. calls (fst (on_message e h (Some msg) s)) = calls s @ cs
           \<and> list_all (concerns msg) cs"
    by (rule on_message_calls)
next
  fix c
  assume "JSON_parse e (content msg) = Inr c"
  then show "invoked (fst (on_message e h (Some msg) s))
         = invoked s @ [\<lparr>content_info = c, fields_info = fields_msg msg,
                          properties_info = properties msg\<rparr>]"
    by (rule on_message_invoked)
next
  fix c s1
  assume "JSON_parse e (content msg) = Inr c"
    and "run_script e msg
                 (h \<lparr>content_info = c, fields_info = fields_msg msg,
                     properties_info = properties msg\<rparr>)
                 (s\<lparr>invoked := invoked s @ [\<lparr>content_info = c, fields_info = fields_msg msg,
                          properties_info = properties msg\<rparr>]\<rparr>) = (s1, Inr ())"
  then show "on_message e h (Some msg) s = (s1, Inr ())"
    by (simp add: on_message_decoded invoke_def)
next
  show "read_prop (consumeOptions opts) ''noAck''
       = (case opts of
            None \<Rightarrow> Some (JBool False)
          | Some ob \<Rightarrow>
              (case read_prop ob ''noAck'' of None \<Rightarrow> Some (JBool False) | Some w \<Rightarrow> Some w))"
    by (rule noAck_default)
next
  fix t r
  show "run_script e msg (Return r) t = (t, Inr ())"
    by (simp add: ret_def)
qed (simp_all add: on_message_malformed ack_cases nack_cases consume_registers
      run_script_steps on_message_single_call split: option.splits)

lemma sample_consume:
  "consume broker_up ''q'' acking_handler None sample_connected
     = (sample_connected
          \<lparr>calls := calls sample_connected @ [Consume 2 ''q'' [(''noAck'', JBool False)]]\<rparr>,
        Inr ''ctag'')"
  by (simp add: consume_registers [OF sample_connected_ensure sample_connected_fields(2)]
      consumeOptions_def spread_def broker_up_answers)

lemma sample_consuming_fields:
  "connection sample_consuming = Some 1" "channel sample_consuming = Some 2"
  "rabbitMQEnabled sample_consuming"
  "calls sample_consuming
     = calls sample_connected @ [Consume 2 ''q'' [(''noAck'', JBool False)]]"
  by (simp_all add: sample_consuming_def sample_consume sample_connected_fields)

lemma sample_consuming_ensure:
  "ensureConnection e sample_consuming = (sample_consuming, Inr ())"
  by (simp add: ensureConnection_def sample_consuming_fields)

lemma sample_consuming_live: "live broker_up sample_config sample_consuming"
  using l_consume [OF sample_connected_reachable sample_consume]
  by (simp add: sample_consuming_def sample_consume)

lemma sample_messages:
  "JSON_parse broker_up (content sample_message) = Inr (JObj [])"
  "JSON_parse broker_up (content malformed_message) = Inl (Error ''SyntaxError'')"
  "fields_msg sample_message = JObj []" "properties sample_message = JObj []"
  by (simp_all add: sample_message_def malformed_message_def broker_up_answers)

theorem consume_delivery_witness:
  "live broker_up sample_config sample_consuming
   \<and> JSON_parse broker_up (content malformed_message) = Inl (Error ''SyntaxError'')
   \<and> channel sample_consuming = Some 2
   \<and> invoked (fst (on_message broker_up acking_handler (Some malformed_message) sample_consuming))
       = invoked sample_consuming
   \<and> calls (fst (on_message broker_up acking_handler (Some malformed_message) sample_consuming))
       = calls sample_consuming @ [Reject 2 malformed_message False]
   \<and> JSON_parse broker_up (content sample_message) = Inr (JObj [])
   \<and> invoked (fst (on_message broker_up acking_handler (Some sample_message) sample_consuming))
       = invoked sample_consuming
           @ [\<lparr>content_info = JObj [], fields_info = JObj [], properties_info = JObj []\<rparr>]
   \<and> on_message broker_up acking_handler (Some sample_message) sample_consuming
       = (sample_consuming
            \<lparr>calls := calls sample_consuming @ [Ack 2 sample_message],
             invoked := invoked sample_consuming
               @ [\<lparr>content_info = JObj [], fields_info = JObj [], properties_info = JObj []\<rparr>]\<rparr>,
          Inr ())
   \<and> nack broker_up sample_message (Some True) sample_consuming
       = (sample_consuming\<lparr>calls := calls sample_consuming @ [Nack 2 sample_message False True]\<rparr>,
          Inr ())
   \<and> ensureConnection broker_up sample_consuming = (sample_consuming, Inr ())
   \<and> calls (fst (consume broker_up ''q'' acking_handler None sample_consuming))
       = calls sample_consuming @ [Consume 2 ''q'' [(''noAck'', JBool False)]]
   \<and> read_prop (consumeOptions (Some [(''noAck'', JBool True)])) ''noAck'' = Some (JBool True)
   \<and> requeueing_handler
         \<lparr>content_info = JObj [], fields_info = JObj [], properties_info = JObj []\<rparr>
       = CallNack (Some True) (\<lambda>_. Return Void)
   \<and> on_message broker_up requeueing_handler (Some sample_message) sample_consuming
       = (sample_consuming
            \<lparr>calls := calls sample_consuming @ [Nack 2 sample_message False True],
             invoked := invoked sample_consuming
               @ [\<lparr>content_info = JObj [], fields_info = JObj [], properties_info = JObj []\<rparr>]\<rparr>,
          Inr ())
   \<and> dropping_handler
         \<lparr>content_info = JObj [], fields_info = JObj [], properties_info = JObj []\<rparr>
       = CallNack None (\<lambda>_. Return Void)
   \<and> on_message broker_up dropping_handler (Some sample_message) sample_consuming
       = (sample_consuming
            \<lparr>calls := calls sample_consuming @ [Reject 2 sample_message False],
             invoked := invoked sample_consuming
               @ [\<lparr>content_info = JObj [], fields_info = JObj [], properties_info = JObj []\<rparr>]\<rparr>,
          Inr ())
   \<and> run_script broker_up sample_message (CallNack (Some False) (\<lambda>_. Return Void))
         sample_consuming
       = (sample_consuming\<lparr>calls := calls sample_consuming @ [Reject 2 sample_message False]\<rparr>,
          Inr ())"
proof -
  let ?info = "\<lparr>content_info = JObj [], fields_info = JObj [], properties_info = JObj []\<rparr>"
  have run: "run_script broker_up sample_message (acking_handler ?info)
               (sample_consuming\<lparr>invoked := invoked sample_consuming @ [?info]\<rparr>)
             = (sample_consuming
                  \<lparr>calls := calls sample_consuming @ [Ack 2 sample_message],
                   invoked := invoked sample_consuming @ [?info]\<rparr>, Inr ())"
    by (simp add: acking_handler_def ack_cases sample_consuming_fields broker_up_answers ret_def)
  have o: "consumeOptions None = [(''noAck'', JBool False)]"
    "read_prop [(''noAck'', JBool True)] ''noAck'' = Some (JBool True)"
    by (simp_all add: consumeOptions_def spread_def read_prop_def)
  note t1 = consume_delivery [of broker_up malformed_message acking_handler sample_consuming
      "Some [(''noAck'', JBool True)]" "''q''" sample_config]
  note t2 = consume_delivery [of broker_up sample_message acking_handler sample_consuming
      None "''q''" sample_config]
  note t3 = consume_delivery [of broker_up sample_message requeueing_handler sample_consuming
      None "''q''" sample_config]
  note t4 = consume_delivery [of broker_up sample_message dropping_handler sample_consuming
      None "''q''" sample_config]
  have first: "live broker_up sample_config sample_consuming
   \<and> JSON_parse broker_up (content malformed_message) = Inl (Error ''SyntaxError'')
   \<and> channel sample_consuming = Some 2
   \<and> invoked (fst (on_message broker_up acking_handler (Some malformed_message) sample_consuming))
       = invoked sample_consuming
   \<and> calls (fst (on_message broker_up acking_handler (Some malformed_message) sample_consuming))
       = calls sample_consuming @ [Reject 2 malformed_message False]
   \<and> JSON_parse broker_up (content sample_message) = Inr (JObj [])
   \<and> invoked (fst (on_message broker_up acking_handler (Some sample_message) sample_consuming))
       = invoked sample_consuming @ [?info]
   \<and> on_message broker_up acking_handler (Some sample_message) sample_consuming
       = (sample_consuming
            \<lparr>calls := calls sample_consuming @ [Ack 2 sample_message],
             invoked := invoked sample_consuming @ [?info]\<rparr>,
          Inr ())
   \<and> nack broker_up sample_message (Some True) sample_consuming
       = (sample_consuming\<lparr>calls := calls sample_consuming @ [Nack 2 sample_message False True]\<rparr>,
          Inr ())
   \<and> ensureConnection broker_up sample_consuming = (sample_consuming, Inr ())
   \<and> calls (fst (consume broker_up ''q'' acking_handler None sample_consuming))
       = calls sample_consuming @ [Consume 2 ''q'' [(''noAck'', JBool False)]]
   \<and> read_prop (consumeOptions (Some [(''noAck'', JBool True)])) ''noAck'' = Some (JBool True)"
    using sample_consuming_live t1 t2 run
    by (simp add: sample_messages sample_consuming_fields sample_consuming_ensure
        broker_up_answers o)
  have requeue: "on_message broker_up requeueing_handler (Some sample_message) sample_consuming
       = (sample_consuming
            \<lparr>calls := calls sample_consuming @ [Nack 2 sample_message False True],
             invoked := invoked sample_consuming @ [?info]\<rparr>,
          Inr ())"
    using t3 by (simp add: sample_messages sample_consuming_fields requeueing_handler_def)
  have drop: "on_message broker_up dropping_handler (Some sample_message) sample_consuming
       = (sample_consuming
            \<lparr>calls := calls sample_consuming @ [Reject 2 sample_message False],
             invoked := invoked sample_consuming @ [?info]\<rparr>,
          Inr ())"
    using t4 by (simp add: sample_messages sample_consuming_fields dropping_handler_def)
  have step: "run_script broker_up sample_message (CallNack (Some False) (\<lambda>_. Return Void))
         sample_consuming
       = (sample_consuming\<lparr>calls := calls sample_consuming @ [Reject 2 sample_message False]\<rparr>,
          Inr ())"
    using t2 by (simp add: sample_consuming_fields)
  show ?thesis
    using first requeue drop step
    by (simp add: requeueing_handler_def dropping_handler_def)
qed

text \<open>
  Claim C10. The \<open>catch\<close> block of the consume callback covers the handler call as
  well as the decoding: when the handler's synchronous run throws, the error is logged
  and, a channel being cached (as it is in every state in which a consumer is being
  served), the delivery is rejected without requeue, after whatever
  calls the handler made before throwing; in particular for a handler that throws at
  once. A handler that returns, be it a promise that is rejected later, ends the
  callback normally: nothing is logged and no \<open>reject\<close> is sent.
\<close>

theorem handler_throw_rejected:
  "(\<forall>c s1 err. JSON_parse e (content msg) = Inr c
        \<and> run_script e msg
            (h \<lparr>content_info = c, fields_info = fields_msg msg,
                properties_info = properties msg\<rparr>)
            (s\<lparr>invoked := invoked s @ [\<lparr>content_info = c, fields_info = fields_msg msg,
                     properties_info = properties msg\<rparr>]\<rparr>) = (s1, Inl err) \<longrightarrow>
       logged (fst (on_message e h (Some msg) s))
         = logged s @ [(ERROR, ''Error processing message:'', Some err)]
     \<and> (\<forall>ch. channel s = Some ch \<longrightarrow>
           on_message e h (Some msg) s
             = (s1\<lparr>calls := calls s1 @ [Reject ch msg False],
                   logged := logged s @ [(ERROR, ''Error processing message:'', Some err)]\<rparr>,
                void_result e (calls s1 @ [Reject ch msg False]))))
   \<and> (\<forall>c err ch. JSON_parse e (content msg) = Inr c
        \<and> h \<lparr>content_info = c, fields_info = fields_msg msg,
              properties_info = properties msg\<rparr> = Throw err
        \<and> channel s = Some ch \<longrightarrow>
       on_message e h (Some msg) s
         = (s\<lparr>calls := calls s @ [Reject ch msg False],
               logged := logged s @ [(ERROR, ''Error processing message:'', Some err)],
               invoked := invoked s @ [\<lparr>content_info = c, fields_info = fields_msg msg,
                            properties_info = properties msg\<rparr>]\<rparr>,
            void_result e (calls s @ [Reject ch msg False])))
   \<and> (\<forall>c r. JSON_parse e (content msg) = Inr c
        \<and> h \<lparr>content_info = c, fields_info = fields_msg msg,
              properties_info = properties msg\<rparr> = Return r \<longrightarrow>
       on_message e h (Some msg) s
         = (s\<lparr>invoked := invoked s @ [\<lparr>content_info = c, fields_info = fields_msg msg,
                            properties_info = properties msg\<rparr>]\<rparr>,
            Inr ()))
   \<and> (live e cfg s \<longrightarrow> (\<exists>ch. channel s = Some ch))"
proof (intro conjI allI impI)
  assume "live e cfg s"
  then show "\<exists>ch. channel s = Some ch"
    by (rule live_channel)
next
  fix c s1 err
  let ?info = "\<lparr>content_info = c, fields_info = fields_msg msg, properties_info = properties msg\<rparr>"
  assume a: "JSON_parse e (content msg) = Inr c
        \<and> run_script e msg (h ?info) (s\<lparr>invoked := invoked s @ [?info]\<rparr>) = (s1, Inl err)"
  then have run: "invoke e h msg ?info s = (s1, Inl err)"
    by (simp add: invoke_def)
  from closure_step_invoke [of msg s ?info e h] run
  have st: "closure_step msg (s\<lparr>invoked := invoked s @ [?info]\<rparr>) s1"
    by simp
  have f: "logged s1 = logged s" "channel s1 = channel s"
    using closure_step_fields(2,3) [OF st] by simp_all
  show "logged (fst (on_message e h (Some msg) s))
         = logged s @ [(ERROR, ''Error processing message:'', Some err)]"
    using a run f by (simp add: on_message_decoded split: option.splits)
  show "on_message e h (Some msg) s
             = (s1\<lparr>calls := calls s1 @ [Reject ch msg False],
                   logged := logged s @ [(ERROR, ''Error processing message:'', Some err)]\<rparr>,
                void_result e (calls s1 @ [Reject ch msg False]))"
    if "channel s = Some ch" for ch
    using a run f that by (simp add: on_message_decoded)
next
  fix c err ch
  assume "JSON_parse e (content msg) = Inr c
        \<and> h \<lparr>content_info = c, fields_info = fields_msg msg,
              properties_info = properties msg\<rparr> = Throw err
        \<and> channel s = Some ch"
  then show "on_message e h (Some msg) s
         = (s\<lparr>calls := calls s @ [Reject ch msg False],
               logged := logged s @ [(ERROR, ''Error processing message:'', Some err)],
               invoked := invoked s @ [\<lparr>content_info = c, fields_info = fields_msg msg,
                            properties_info = properties msg\<rparr>]\<rparr>,
            void_result e (calls s @ [Reject ch msg False]))"
    by (simp add: on_message_decoded invoke_def throw_def)
next
  fix c r
  assume "JSON_parse e (content msg) = Inr c
        \<and> h \<lparr>content_info = c, fields_info = fields_msg msg,
              properties_info = properties msg\<rparr> = Return r"
  then show "on_message e h (Some msg) s
         = (s\<lparr>invoked := invoked s @ [\<lparr>content_info = c, fields_info = fields_msg msg,
                            properties_info = properties msg\<rparr>]\<rparr>,
            Inr ())"
    by (simp add: on_message_decoded invoke_def ret_def)
qed

theorem handler_throw_rejected_witness:
  "live broker_up sample_config sample_consuming
   \<and> JSON_parse broker_up (content sample_message) = Inr (JObj [])
   \<and> throwing_handler \<lparr>content_info = JObj [], fields_info = JObj [], properties_info = JObj []\<rparr>
       = Throw (Error ''boom'')
   \<and> channel sample_consuming = Some 2
   \<and> on_message broker_up throwing_handler (Some sample_message) sample_consuming
       = (sample_consuming
            \<lparr>calls := calls sample_consuming @ [Reject 2 sample_message False],
             logged := logged sample_consuming
               @ [(ERROR, ''Error processing message:'', Some (Error ''boom''))],
             invoked := invoked sample_consuming
               @ [\<lparr>content_info = JObj [], fields_info = JObj [], properties_info = JObj []\<rparr>]\<rparr>,
          Inr ())
   \<and> async_failing_handler
         \<lparr>content_info = JObj [], fields_info = JObj [], properties_info = JObj []\<rparr>
       = Return (Promise (Some (Error ''boom'')))
   \<and> on_message broker_up async_failing_handler (Some sample_message) sample_consuming
       = (sample_consuming
            \<lparr>invoked := invoked sample_consuming
               @ [\<lparr>content_info = JObj [], fields_info = JObj [], properties_info = JObj []\<rparr>]\<rparr>,
          Inr ())"
proof -
  let ?info = "\<lparr>content_info = JObj [], fields_info = JObj [], properties_info = JObj []\<rparr>"
  have run: "run_script broker_up sample_message (throwing_handler ?info)
               (sample_consuming\<lparr>invoked := invoked sample_consuming @ [?info]\<rparr>)
             = (sample_consuming\<lparr>invoked := invoked sample_consuming @ [?info]\<rparr>,
                Inl (Error ''boom''))"
    by (simp add: throwing_handler_def throw_def)
  note t1 = handler_throw_rejected [of broker_up sample_message throwing_handler sample_consuming
      sample_config]
  note t2 = handler_throw_rejected [of broker_up sample_message async_failing_handler
      sample_consuming sample_config]
  show ?thesis
    using sample_consuming_live t1 t2 run
    by (simp add: sample_messages sample_consuming_fields broker_up_answers
        throwing_handler_def async_failing_handler_def)
qed

end
